theory Spec2Isabelle
  imports Main "HOL-Library.Word"
begin

unbundle bit_operations_syntax

section \<open>Data model of the emulator core\<close>

text \<open>
  The machine of \<^verbatim>\<open>emulator.c\<close>: the 65C816 register file and pins, the timing
  specification, the reset counter and the two bank maps.  The C structure nests
  \<^verbatim>\<open>cpu.regs\<close>, \<^verbatim>\<open>cpu.pins\<close>, \<^verbatim>\<open>tspec\<close> and \<^verbatim>\<open>mem\<close>; the record below is the
  same data with the path written into the field name.
\<close>

type_synonym u8 = "8 word"
type_synonym u16 = "16 word"
type_synonym u32 = "32 word"
type_synonym u64 = "64 word"

text \<open>
  Modelled from the spec: the enumeration \<^verbatim>\<open>ClemensCPUStateType\<close> is declared in
  \<^verbatim>\<open>clem_types.h\<close>, which is not among the sources.  The data model gives the
  coarse state as one of Reset, IRQ, NMI, Execute.
\<close>

datatype ClemensCPUStateType =
    kClemensCPUStateType_Reset
  | kClemensCPUStateType_Execute
  | kClemensCPUStateType_IRQ
  | kClemensCPUStateType_NMI

text \<open>
  A bank pointer is the address of one 64 KiB block inside one of the buffers that the
  host hands to the initialisation entry points (or inside the static
  \<^verbatim>\<open>s_empty_ram\<close>): \<^verbatim>\<open>fpiRAM + i * CLEM_IIGS_BANK_SIZE\<close>,
  \<^verbatim>\<open>rom + CLEM_IIGS_BANK_SIZE * k\<close>, \<^verbatim>\<open>e0bank\<close>, \<^verbatim>\<open>e1bank\<close>.
\<close>

datatype bank_ptr =
    FpiRamBank nat
  | EmptyRam
  | RomBank nat
  | E0Bank
  | E1Bank

text \<open>A host pointer argument is either \<^verbatim>\<open>NULL\<close> (\<open>None\<close>) or a buffer.\<close>

type_synonym host_ptr = "unit option"

record ClemensMachine =
  regs_A :: u16
  regs_X :: u16
  regs_Y :: u16
  regs_D :: u16
  regs_S :: u16
  regs_PC :: u16
  regs_IR :: u8
  regs_P :: u8
  regs_DBR :: u8
  regs_PBR :: u8
  pins_emulation :: bool
  pins_resbIn :: bool
  pins_irqbIn :: bool
  pins_readyOut :: bool
  cpu_state_type :: ClemensCPUStateType
  cpu_cycles_spent :: u32
  cpu_enabled :: bool
  tspec_clocks_step :: u32
  tspec_clocks_step_fast :: u32
  tspec_clocks_step_mega2 :: u32
  tspec_clocks_spent :: u64
  resb_counter :: int
  fpi_bank_map :: "nat \<Rightarrow> bank_ptr option"
  fpi_bank_used :: "nat \<Rightarrow> bool"
  mega2_bank_map :: "nat \<Rightarrow> bank_ptr option"
  bank_page_map :: "nat \<Rightarrow> nat option"
  ram :: "bank_ptr \<Rightarrow> nat \<Rightarrow> u8"
  warnings :: "string list"

definition CLEM_IIGS_BANK_SIZE :: nat where
  "CLEM_IIGS_BANK_SIZE = 65536"

text \<open>
  Modelled from the spec: \<^verbatim>\<open>CLEM_IIGS_EMPTY_RAM_BANK\<close> is defined in
  \<^verbatim>\<open>clem_defs.h\<close>, which is not among the sources; it names the bank-map slot that
  holds the all-zero sentinel page.  Its value is a parameter of the initialisation
  model below.
\<close>

datatype error =
    NullPointerAccess
  | MemcpyOutOfBounds
  | AssertionFailed
  | OpcodeNotModelled u8
  | ArrayIndexOutOfBounds

section \<open>Initialisation\<close>

text \<open>\<^verbatim>\<open>memset(p, 0, CLEM_IIGS_BANK_SIZE)\<close> on the block a bank pointer names.\<close>

definition memset_bank_zero :: "bank_ptr \<Rightarrow> ClemensMachine \<Rightarrow> ClemensMachine" where
  "memset_bank_zero p m = m\<lparr>ram := (ram m)(p := (\<lambda>_. 0))\<rparr>"

text \<open>
  The first loop of \<^verbatim>\<open>clemens_simple_init\<close>: banks \<open>0 ..< n\<close> are marked used, mapped
  into the fast-RAM buffer and cleared.
\<close>

definition simple_init_map_bank :: "nat \<Rightarrow> ClemensMachine \<Rightarrow> ClemensMachine" where
  "simple_init_map_bank i m =
     memset_bank_zero (FpiRamBank i)
       (m\<lparr>fpi_bank_used := (fpi_bank_used m)(i := True),
          fpi_bank_map := (fpi_bank_map m)(i := Some (FpiRamBank i))\<rparr>)"

text \<open>The second loop: banks \<open>n ..< 0xff\<close> are marked unused and mapped to the empty page.\<close>

definition simple_init_unmap_bank :: "nat \<Rightarrow> ClemensMachine \<Rightarrow> ClemensMachine" where
  "simple_init_unmap_bank i m =
     m\<lparr>fpi_bank_used := (fpi_bank_used m)(i := False),
       fpi_bank_map := (fpi_bank_map m)(i := Some EmptyRam)\<rparr>"

text \<open>
  \<^verbatim>\<open>clemens_simple_init\<close>.  Clearing a bank through a \<^verbatim>\<open>NULL\<close> fast-RAM pointer is a
  write through a null pointer; the model reports it as an error value.  The opcode
  description table the function fills at its end is static data outside the machine.
\<close>

definition clemens_simple_init ::
  "ClemensMachine \<Rightarrow> u32 \<Rightarrow> u32 \<Rightarrow> host_ptr \<Rightarrow> nat \<Rightarrow> error + ClemensMachine" where
  "clemens_simple_init machine speed_factor clocks_step fpiRAM fpiRAMBankCount =
     (let m1 = machine\<lparr>pins_resbIn := True,
                       tspec_clocks_step := clocks_step,
                       tspec_clocks_step_fast := clocks_step,
                       tspec_clocks_step_mega2 := speed_factor,
                       tspec_clocks_spent := 0,
                       pins_irqbIn := True\<rparr>;
          cnt = (if fpiRAMBankCount > 256 then 256 else fpiRAMBankCount)
      in if fpiRAM = None \<and> cnt > 0 then Inl NullPointerAccess
         else
           (let m2 = fold simple_init_map_bank [0 ..< cnt] m1;
                m3 = memset_bank_zero EmptyRam m2;
                m4 = fold simple_init_unmap_bank [cnt ..< 255] m3
            in Inr (m4\<lparr>bank_page_map := (\<lambda>_. None)\<rparr>)))"

text \<open>The ROM loop of \<^verbatim>\<open>clemens_init\<close>, for \<open>idx\<close> from \<open>0xfc\<close> to \<open>0xff\<close>.\<close>

definition init_map_rom :: "nat \<Rightarrow> ClemensMachine \<Rightarrow> ClemensMachine" where
  "init_map_rom idx m =
     m\<lparr>fpi_bank_used := (fpi_bank_used m)(idx := True),
       fpi_bank_map := (fpi_bank_map m)(idx := Some (RomBank (idx - 252)))\<rparr>"

text \<open>
  \<^verbatim>\<open>clemens_init\<close>: the simple initialisation runs first, then the arguments are
  checked, then ROM and the two slow banks are mapped.  The result is the returned
  \<^verbatim>\<open>int\<close> together with the machine as the call leaves it.
\<close>

definition clemens_init ::
  "nat \<Rightarrow> ClemensMachine \<Rightarrow> u32 \<Rightarrow> u32 \<Rightarrow> host_ptr \<Rightarrow> host_ptr \<Rightarrow> host_ptr \<Rightarrow> host_ptr \<Rightarrow> nat
     \<Rightarrow> error + (int \<times> ClemensMachine)" where
  "clemens_init empty_ram_bank machine speed_factor clocks_step rom e0bank e1bank fpiRAM
       fpiRAMBankCount =
     (case clemens_simple_init machine speed_factor clocks_step fpiRAM fpiRAMBankCount of
        Inl e \<Rightarrow> Inl e
      | Inr m \<Rightarrow>
          if rom = None then Inr (- 1, m)
          else if fpiRAMBankCount < 4 \<or> fpiRAM = None \<or> e0bank = None \<or> e1bank = None
          then Inr (- 2, m)
          else
            (let m1 = fold init_map_rom [252 ..< 256] m;
                 m2 = m1\<lparr>fpi_bank_map := (fpi_bank_map m1)(empty_ram_bank := Some EmptyRam)\<rparr>;
                 m3 = m2\<lparr>mega2_bank_map := (mega2_bank_map m2)(0 := Some E0Bank)\<rparr>;
                 m4 = memset_bank_zero E0Bank m3;
                 m5 = m4\<lparr>mega2_bank_map := (mega2_bank_map m4)(1 := Some E1Bank)\<rparr>;
                 m6 = memset_bank_zero E1Bank m5
             in Inr (0, m6)))"

definition clemens_is_initialized_simple :: "ClemensMachine \<Rightarrow> bool" where
  "clemens_is_initialized_simple machine = (fpi_bank_map machine 0 \<noteq> None)"

definition clemens_is_initialized :: "ClemensMachine \<Rightarrow> bool" where
  "clemens_is_initialized machine =
     (if \<not> clemens_is_initialized_simple machine then False
      else if fpi_bank_map machine 1 = None then False
      else if tspec_clocks_step machine = 0
              \<or> tspec_clocks_step machine > tspec_clocks_step_mega2 machine then False
      else True)"

text \<open>
  A machine before any initialisation: every field zero, every map entry \<^verbatim>\<open>NULL\<close>,
  the host buffers holding arbitrary data (here the byte \<open>0xAA\<close>).
\<close>

definition uninitialized_machine :: ClemensMachine where
  "uninitialized_machine =
     \<lparr>regs_A = 0, regs_X = 0, regs_Y = 0, regs_D = 0, regs_S = 0, regs_PC = 0,
      regs_IR = 0, regs_P = 0, regs_DBR = 0, regs_PBR = 0,
      pins_emulation = False, pins_resbIn = False, pins_irqbIn = False,
      pins_readyOut = False, cpu_state_type = kClemensCPUStateType_Execute,
      cpu_cycles_spent = 0, cpu_enabled = False,
      tspec_clocks_step = 0, tspec_clocks_step_fast = 0, tspec_clocks_step_mega2 = 0,
      tspec_clocks_spent = 0, resb_counter = 0,
      fpi_bank_map = (\<lambda>_. None), fpi_bank_used = (\<lambda>_. False),
      mega2_bank_map = (\<lambda>_. None), bank_page_map = (\<lambda>_. None),
      ram = (\<lambda>_ _. 0xAA), warnings = []\<rparr>"

section \<open>Constants of the processor\<close>

text \<open>
  Modelled from the spec: the status-bit masks \<^verbatim>\<open>kClemensCPUStatus_*\<close> are declared in
  \<^verbatim>\<open>clem_types.h\<close>, which is not among the sources.  The data model lists the bits of
  P as C, Z, I, D, X, M, V, N, from bit 0 to bit 7 (the status line printed by
  \<^verbatim>\<open>CLEM_I_PRINT_STATS\<close> reads \<^verbatim>\<open>NVMXDIZC\<close> from bit 7 down).
\<close>

definition kClemensCPUStatus_Carry :: u8 where "kClemensCPUStatus_Carry = 0x01"
definition kClemensCPUStatus_Zero :: u8 where "kClemensCPUStatus_Zero = 0x02"
definition kClemensCPUStatus_IRQDisable :: u8 where "kClemensCPUStatus_IRQDisable = 0x04"
definition kClemensCPUStatus_Decimal :: u8 where "kClemensCPUStatus_Decimal = 0x08"
definition kClemensCPUStatus_Index :: u8 where "kClemensCPUStatus_Index = 0x10"
definition kClemensCPUStatus_MemoryAccumulator :: u8 where
  "kClemensCPUStatus_MemoryAccumulator = 0x20"
definition kClemensCPUStatus_Overflow :: u8 where "kClemensCPUStatus_Overflow = 0x40"
definition kClemensCPUStatus_Negative :: u8 where "kClemensCPUStatus_Negative = 0x80"

text \<open>
  Modelled from the spec: in emulation mode the break bit B takes the place of a width bit
  in the pushed status byte; the emulation status line of \<^verbatim>\<open>CLEM_I_PRINT_STATS\<close>
  (\<^verbatim>\<open>NV_BDIZC\<close>) puts it at bit 4.
\<close>

definition kClemensCPUStatus_EmulatedBrk :: u8 where "kClemensCPUStatus_EmulatedBrk = 0x10"

text \<open>
  Modelled from the spec: the vector addresses \<^verbatim>\<open>CLEM_6502_*_VECTOR_*_ADDR\<close> and
  \<^verbatim>\<open>CLEM_65816_*_VECTOR_*_ADDR\<close> are defined in \<^verbatim>\<open>clem_defs.h\<close>, which is not among
  the sources.  The vectors live in bank 0 at fixed offsets, distinct for emulation and
  native mode and for each source; the reset vector is FFFC/FFFD.  The other offsets are
  those of the WDC 65C816 vector table.
\<close>

definition CLEM_6502_COP_VECTOR_LO_ADDR :: u16 where "CLEM_6502_COP_VECTOR_LO_ADDR = 0xFFF4"
definition CLEM_6502_COP_VECTOR_HI_ADDR :: u16 where "CLEM_6502_COP_VECTOR_HI_ADDR = 0xFFF5"
definition CLEM_6502_NMI_VECTOR_LO_ADDR :: u16 where "CLEM_6502_NMI_VECTOR_LO_ADDR = 0xFFFA"
definition CLEM_6502_NMI_VECTOR_HI_ADDR :: u16 where "CLEM_6502_NMI_VECTOR_HI_ADDR = 0xFFFB"
definition CLEM_6502_RESET_VECTOR_LO_ADDR :: u16 where
  "CLEM_6502_RESET_VECTOR_LO_ADDR = 0xFFFC"
definition CLEM_6502_RESET_VECTOR_HI_ADDR :: u16 where
  "CLEM_6502_RESET_VECTOR_HI_ADDR = 0xFFFD"
definition CLEM_6502_IRQBRK_VECTOR_LO_ADDR :: u16 where
  "CLEM_6502_IRQBRK_VECTOR_LO_ADDR = 0xFFFE"
definition CLEM_6502_IRQBRK_VECTOR_HI_ADDR :: u16 where
  "CLEM_6502_IRQBRK_VECTOR_HI_ADDR = 0xFFFF"
definition CLEM_65816_COP_VECTOR_LO_ADDR :: u16 where
  "CLEM_65816_COP_VECTOR_LO_ADDR = 0xFFE4"
definition CLEM_65816_COP_VECTOR_HI_ADDR :: u16 where
  "CLEM_65816_COP_VECTOR_HI_ADDR = 0xFFE5"
definition CLEM_65816_BRK_VECTOR_LO_ADDR :: u16 where
  "CLEM_65816_BRK_VECTOR_LO_ADDR = 0xFFE6"
definition CLEM_65816_BRK_VECTOR_HI_ADDR :: u16 where
  "CLEM_65816_BRK_VECTOR_HI_ADDR = 0xFFE7"
definition CLEM_65816_NMI_VECTOR_LO_ADDR :: u16 where
  "CLEM_65816_NMI_VECTOR_LO_ADDR = 0xFFEA"
definition CLEM_65816_NMI_VECTOR_HI_ADDR :: u16 where
  "CLEM_65816_NMI_VECTOR_HI_ADDR = 0xFFEB"
definition CLEM_65816_IRQB_VECTOR_LO_ADDR :: u16 where
  "CLEM_65816_IRQB_VECTOR_LO_ADDR = 0xFFEE"
definition CLEM_65816_IRQB_VECTOR_HI_ADDR :: u16 where
  "CLEM_65816_IRQB_VECTOR_HI_ADDR = 0xFFEF"

text \<open>
  Modelled from the spec: the opcode values \<^verbatim>\<open>CLEM_OPC_*\<close> are defined in
  \<^verbatim>\<open>clem_code.h\<close>, which is not among the sources.  The decoder covers the WDC 65C816
  instruction set; the values are the encodings of that set.
\<close>

definition CLEM_OPC_BRK :: u8 where "CLEM_OPC_BRK = 0x00"
definition CLEM_OPC_COP :: u8 where "CLEM_OPC_COP = 0x02"
definition CLEM_OPC_CLC :: u8 where "CLEM_OPC_CLC = 0x18"
definition CLEM_OPC_SEC :: u8 where "CLEM_OPC_SEC = 0x38"
definition CLEM_OPC_MVP :: u8 where "CLEM_OPC_MVP = 0x44"
definition CLEM_OPC_MVN :: u8 where "CLEM_OPC_MVN = 0x54"
definition CLEM_OPC_REP :: u8 where "CLEM_OPC_REP = 0xC2"
definition CLEM_OPC_WAI :: u8 where "CLEM_OPC_WAI = 0xCB"
definition CLEM_OPC_STP :: u8 where "CLEM_OPC_STP = 0xDB"
definition CLEM_OPC_SEP :: u8 where "CLEM_OPC_SEP = 0xE2"
definition CLEM_OPC_NOP :: u8 where "CLEM_OPC_NOP = 0xEA"
definition CLEM_OPC_XCE :: u8 where "CLEM_OPC_XCE = 0xFB"

section \<open>Helpers of the executor\<close>

text \<open>
  Modelled from the spec: the macro \<^verbatim>\<open>CLEM_UTIL_set16_lo\<close> is defined in
  \<^verbatim>\<open>clem_util.h\<close>, which is not among the sources.  It keeps the high byte of its
  first argument and takes the low byte of the second (8-bit operations preserve the
  high byte; entering emulation calls it with \<open>0x0100\<close> to latch S.high).
\<close>

definition CLEM_UTIL_set16_lo :: "u16 \<Rightarrow> u16 \<Rightarrow> u16" where
  "CLEM_UTIL_set16_lo v16 v8 = (v16 AND 0xff00) OR (v8 AND 0x00ff)"

text \<open>
  Modelled from the spec: \<^verbatim>\<open>_clem_cycle\<close> (\<^verbatim>\<open>clem_util.h\<close>, not among the sources)
  charges internal cycles: \<open>cycles_spent\<close> grows by one per cycle and the timestamp by
  the fast step per cycle.
\<close>

definition clem_cycle :: "ClemensMachine \<Rightarrow> u32 \<Rightarrow> ClemensMachine" where
  "clem_cycle clem cycle_count =
     clem\<lparr>cpu_cycles_spent := cpu_cycles_spent clem + cycle_count,
          tspec_clocks_spent := tspec_clocks_spent clem
                                  + ucast (tspec_clocks_step clem) * ucast cycle_count\<rparr>"

text \<open>
  The block a bank byte resolves to: banks \<open>0xE0\<close> and \<open>0xE1\<close> through the slow-RAM
  map, every other bank through the fast map (the selection written out in
  \<^verbatim>\<open>clemens_out_bin_data\<close> and \<^verbatim>\<open>clemens_out_hex_data_body\<close>).
\<close>

definition bank_memory :: "ClemensMachine \<Rightarrow> u8 \<Rightarrow> bank_ptr option" where
  "bank_memory clem bank =
     (if bank = 0xe0 \<or> bank = 0xe1 then mega2_bank_map clem (unat (bank AND 0x1))
      else fpi_bank_map clem (unat (bank AND 0xff)))"

definition bank_read_only :: "bank_ptr \<Rightarrow> bool" where
  "bank_read_only p = (case p of RomBank _ \<Rightarrow> True | EmptyRam \<Rightarrow> True | _ \<Rightarrow> False)"

text \<open>
  Modelled from the spec: the bus primitives \<^verbatim>\<open>clem_read\<close> and \<^verbatim>\<open>clem_write\<close> live in
  \<^verbatim>\<open>clem_mem.c\<close>, which is not among the sources.  A read resolves the bank through the
  bank map and returns the byte of the resolved page; an unmapped bank reads as the
  all-zero sentinel.  A write to a read-only or unmapped page is dropped.  Either way
  one cycle is charged, at the slow step for banks \<open>0xE0\<close> and \<open>0xE1\<close> and at the fast
  step otherwise.  Page remapping and the I/O gate depend on the soft switches of the
  MMIO collaborator and are outside this model: every page maps to itself.
\<close>

definition clem_mem_cycle :: "ClemensMachine \<Rightarrow> u8 \<Rightarrow> ClemensMachine" where
  "clem_mem_cycle clem bank =
     clem\<lparr>cpu_cycles_spent := cpu_cycles_spent clem + 1,
          tspec_clocks_spent := tspec_clocks_spent clem
             + ucast (if bank = 0xe0 \<or> bank = 0xe1 then tspec_clocks_step_mega2 clem
                      else tspec_clocks_step clem)\<rparr>"

definition peek :: "ClemensMachine \<Rightarrow> u8 \<Rightarrow> u16 \<Rightarrow> u8" where
  "peek clem bank adr =
     (case bank_memory clem bank of None \<Rightarrow> 0 | Some p \<Rightarrow> ram clem p (unat adr))"

definition clem_read :: "ClemensMachine \<Rightarrow> u16 \<Rightarrow> u8 \<Rightarrow> u8 \<times> ClemensMachine" where
  "clem_read clem adr bank = (peek clem bank adr, clem_mem_cycle clem bank)"

definition poke :: "ClemensMachine \<Rightarrow> u8 \<Rightarrow> u16 \<Rightarrow> u8 \<Rightarrow> ClemensMachine" where
  "poke clem bank adr data =
     (case bank_memory clem bank of
        None \<Rightarrow> clem
      | Some p \<Rightarrow>
          if bank_read_only p then clem
          else clem\<lparr>ram := (ram clem)(p := (ram clem p)(unat adr := data))\<rparr>)"

definition clem_write :: "ClemensMachine \<Rightarrow> u8 \<Rightarrow> u16 \<Rightarrow> u8 \<Rightarrow> ClemensMachine" where
  "clem_write clem data adr bank = clem_mem_cycle (poke clem bank adr data) bank"

text \<open>
  Modelled from the spec: \<^verbatim>\<open>_clem_read_pba\<close> (\<^verbatim>\<open>clem_util.h\<close>) fetches one operand
  byte at \<open>PBR:pc\<close> and advances the local program counter, which wraps inside the
  program bank.
\<close>

definition clem_read_pba :: "ClemensMachine \<Rightarrow> u16 \<Rightarrow> u8 \<times> u16 \<times> ClemensMachine" where
  "clem_read_pba clem pc =
     (let (data, clem1) = clem_read clem pc (regs_PBR clem) in (data, pc + 1, clem1))"

text \<open>
  Modelled from the spec: the stack-pointer helpers \<^verbatim>\<open>_cpu_sp_dec\<close> and
  \<^verbatim>\<open>_cpu_sp_dec2\<close> (\<^verbatim>\<open>clem_util.h\<close>).  In emulation mode the high byte of S is latched
  and stack arithmetic wraps inside the page; in native mode S wraps the full 16 bits.
\<close>

definition cpu_sp_dec_n :: "u16 \<Rightarrow> ClemensMachine \<Rightarrow> ClemensMachine" where
  "cpu_sp_dec_n n clem =
     (let tmp = regs_S clem - n
      in clem\<lparr>regs_S := (if pins_emulation clem then CLEM_UTIL_set16_lo (regs_S clem) tmp
                          else tmp)\<rparr>)"

definition cpu_sp_dec :: "ClemensMachine \<Rightarrow> ClemensMachine" where
  "cpu_sp_dec clem = cpu_sp_dec_n 1 clem"

definition cpu_sp_dec2 :: "ClemensMachine \<Rightarrow> ClemensMachine" where
  "cpu_sp_dec2 clem = cpu_sp_dec_n 2 clem"

text \<open>
  Modelled from the spec: \<^verbatim>\<open>_cpu_p_flags_apply_m_x\<close> (\<^verbatim>\<open>clem_util.h\<close>).  Setting X=1
  zeros the high bytes of X and Y; toggling M or X changes no other visible byte.
\<close>

definition cpu_p_flags_apply_m_x :: "ClemensMachine \<Rightarrow> ClemensMachine" where
  "cpu_p_flags_apply_m_x clem =
     (if regs_P clem AND kClemensCPUStatus_Index \<noteq> 0
      then clem\<lparr>regs_X := regs_X clem AND 0x00ff, regs_Y := regs_Y clem AND 0x00ff\<rparr>
      else clem)"

text \<open>
  Modelled from the spec: \<^verbatim>\<open>_clem_read_interrupt_vector\<close> (\<^verbatim>\<open>clem_util.h\<close>) pulls the
  target PC from a bank-0 address pair, low byte first.
\<close>

definition clem_read_interrupt_vector ::
  "ClemensMachine \<Rightarrow> u16 \<Rightarrow> u16 \<Rightarrow> u16 \<times> ClemensMachine" where
  "clem_read_interrupt_vector clem vector_lo vector_hi =
     (let (lo, clem1) = clem_read clem vector_lo 0x00;
          (hi, clem2) = clem_read clem1 vector_hi 0x00
      in (push_bit 8 (ucast hi) OR ucast lo, clem2))"

text \<open>One byte pushed on the bank-0 stack: written at S, then S decremented.\<close>

definition clem_opc_push_8 :: "ClemensMachine \<Rightarrow> u8 \<Rightarrow> ClemensMachine" where
  "clem_opc_push_8 clem data = cpu_sp_dec (clem_write clem data (regs_S clem) 0x00)"

text \<open>
  Modelled from the spec: \<^verbatim>\<open>_clem_irq_brk_setup\<close> (\<^verbatim>\<open>clem_util.h\<close>), the entry sequence
  shared by BRK, COP, IRQ and NMI.  It pushes PBR (native mode only), PC high, PC low and
  the status byte (in emulation mode with B=1 for a software interrupt and B=0 for a
  hardware one), sets I=1, clears D, and loads PC from the vector pair it is given.  The
  callers pass the program bank by reference; the vectors live in bank 0, so the bank
  handed back is 0.
\<close>

definition clem_irq_brk_setup ::
  "ClemensMachine \<Rightarrow> u8 \<Rightarrow> u16 \<Rightarrow> u16 \<Rightarrow> u16 \<Rightarrow> bool \<Rightarrow> u8 \<times> u16 \<times> ClemensMachine" where
  "clem_irq_brk_setup clem pbr pc vector_lo vector_hi is_brk =
     (let clem1 = (if pins_emulation clem then clem else clem_opc_push_8 clem pbr);
          clem2 = clem_opc_push_8 clem1 (ucast (drop_bit 8 pc));
          clem3 = clem_opc_push_8 clem2 (ucast pc);
          status = (if pins_emulation clem3
                    then (if is_brk then regs_P clem3 OR kClemensCPUStatus_EmulatedBrk
                          else regs_P clem3 AND NOT kClemensCPUStatus_EmulatedBrk)
                    else regs_P clem3);
          clem4 = clem_opc_push_8 clem3 status;
          clem5 = clem4\<lparr>regs_P := (regs_P clem4 OR kClemensCPUStatus_IRQDisable)
                                     AND NOT kClemensCPUStatus_Decimal\<rparr>;
          (new_pc, clem6) = clem_read_interrupt_vector clem5 vector_lo vector_hi
      in (0x00, new_pc, clem6))"

text \<open>
  Modelled from the spec: \<^verbatim>\<open>CLEM_WARN\<close> (\<^verbatim>\<open>clem_debug.h\<close>, not among the sources) hands
  a formatted message to the host logger; the machine keeps the messages in order.
\<close>

definition CLEM_WARN :: "string \<Rightarrow> ClemensMachine \<Rightarrow> ClemensMachine" where
  "CLEM_WARN msg clem = clem\<lparr>warnings := warnings clem @ [msg]\<rparr>"

section \<open>The executor\<close>

text \<open>
  The 256-way switch of \<^verbatim>\<open>cpu_execute\<close> has one \<^verbatim>\<open>case\<close> label for each of the 256
  opcode values and a \<^verbatim>\<open>default\<close> label.  The arms written out below are the ones this
  development reasons about; every other opcode value selects \<open>Case_other\<close>, an arm of
  the source that is not modelled.  No opcode value selects \<open>Case_default\<close>.
\<close>

datatype opcode_case =
    Case_CLC | Case_SEC | Case_MVN | Case_MVP | Case_NOP | Case_REP | Case_SEP
  | Case_XCE | Case_BRK | Case_COP | Case_WAI | Case_STP
  | Case_other
  | Case_default

definition opcode_switch :: "u8 \<Rightarrow> opcode_case" where
  "opcode_switch IR =
     (if IR = CLEM_OPC_CLC then Case_CLC
      else if IR = CLEM_OPC_SEC then Case_SEC
      else if IR = CLEM_OPC_MVN then Case_MVN
      else if IR = CLEM_OPC_MVP then Case_MVP
      else if IR = CLEM_OPC_NOP then Case_NOP
      else if IR = CLEM_OPC_REP then Case_REP
      else if IR = CLEM_OPC_SEP then Case_SEP
      else if IR = CLEM_OPC_XCE then Case_XCE
      else if IR = CLEM_OPC_BRK then Case_BRK
      else if IR = CLEM_OPC_COP then Case_COP
      else if IR = CLEM_OPC_WAI then Case_WAI
      else if IR = CLEM_OPC_STP then Case_STP
      else Case_other)"

text \<open>
  The arms \<^verbatim>\<open>CLEM_OPC_MVN\<close> and \<^verbatim>\<open>CLEM_OPC_MVP\<close>; \<open>forward\<close> selects the increment
  of MVN.  \<open>tmp_pc\<close> is the local program counter, already past the opcode byte.
\<close>

definition cpu_execute_move ::
  "bool \<Rightarrow> bool \<Rightarrow> u16 \<Rightarrow> ClemensMachine \<Rightarrow> u16 \<times> ClemensMachine" where
  "cpu_execute_move forward x_status tmp_pc clem =
     (let (tmp_bnk1, tmp_pc1, clem1) = clem_read_pba clem tmp_pc;
          (tmp_bnk0, tmp_pc2, clem2) = clem_read_pba clem1 tmp_pc1;
          (tmp_data, clem3) = clem_read clem2 (regs_X clem2) tmp_bnk0;
          clem4 = clem_write clem3 tmp_data (regs_Y clem3) tmp_bnk1;
          step = (if forward then 1 else - 1);
          clem5 = (if x_status
                   then clem4\<lparr>regs_X := CLEM_UTIL_set16_lo (regs_X clem4) (regs_X clem4 + step),
                              regs_Y := CLEM_UTIL_set16_lo (regs_Y clem4) (regs_Y clem4 + step)\<rparr>
                   else clem4\<lparr>regs_X := regs_X clem4 + step, regs_Y := regs_Y clem4 + step\<rparr>);
          clem6 = clem_cycle clem5 2;
          clem7 = clem6\<lparr>regs_A := regs_A clem6 - 1\<rparr>;
          tmp_pc3 = (if regs_A clem7 \<noteq> 0xffff then regs_PC clem7 else tmp_pc2)
      in (tmp_pc3, clem7\<lparr>regs_DBR := tmp_bnk1\<rparr>))"

definition cpu_execute_REP :: "u16 \<Rightarrow> ClemensMachine \<Rightarrow> u16 \<times> ClemensMachine" where
  "cpu_execute_REP tmp_pc clem =
     (let (tmp_data, tmp_pc1, clem1) = clem_read_pba clem tmp_pc;
          clem2 = clem1\<lparr>regs_P := regs_P clem1 AND NOT tmp_data\<rparr>;
          clem3 = (if pins_emulation clem2
                   then clem2\<lparr>regs_P := regs_P clem2 OR kClemensCPUStatus_MemoryAccumulator
                                            OR kClemensCPUStatus_Index\<rparr>
                   else clem2)
      in (tmp_pc1, clem_cycle (cpu_p_flags_apply_m_x clem3) 1))"

definition cpu_execute_SEP :: "u16 \<Rightarrow> ClemensMachine \<Rightarrow> u16 \<times> ClemensMachine" where
  "cpu_execute_SEP tmp_pc clem =
     (let (tmp_data, tmp_pc1, clem1) = clem_read_pba clem tmp_pc;
          tmp_data1 = (if pins_emulation clem1
                       then tmp_data OR kClemensCPUStatus_MemoryAccumulator
                                     OR kClemensCPUStatus_Index
                       else tmp_data);
          clem2 = clem1\<lparr>regs_P := regs_P clem1 OR tmp_data1\<rparr>
      in (tmp_pc1, clem_cycle (cpu_p_flags_apply_m_x clem2) 1))"

definition cpu_execute_XCE :: "ClemensMachine \<Rightarrow> ClemensMachine" where
  "cpu_execute_XCE clem =
     (let tmp_value = pins_emulation clem;
          clem1 = clem\<lparr>pins_emulation := (regs_P clem AND kClemensCPUStatus_Carry \<noteq> 0)\<rparr>;
          clem2 = (if tmp_value \<noteq> pins_emulation clem1
                   then (let c1 = clem1\<lparr>regs_P := regs_P clem1 OR kClemensCPUStatus_Index
                                                      OR kClemensCPUStatus_MemoryAccumulator\<rparr>;
                             c2 = (if tmp_value then c1
                                   else c1\<lparr>regs_S := CLEM_UTIL_set16_lo 0x0100 (regs_S c1)\<rparr>)
                         in cpu_p_flags_apply_m_x c2)
                   else clem1);
          clem3 = (if tmp_value
                   then clem2\<lparr>regs_P := regs_P clem2 OR kClemensCPUStatus_Carry\<rparr>
                   else clem2\<lparr>regs_P := regs_P clem2 AND NOT kClemensCPUStatus_Carry\<rparr>)
      in clem_cycle clem3 1)"

text \<open>
  The arms \<^verbatim>\<open>CLEM_OPC_BRK\<close> and \<^verbatim>\<open>CLEM_OPC_COP\<close>: the signature byte is fetched, then
  the shared entry sequence runs with the vector pair the arm names.  The pair is written
  here as the source writes it.
\<close>

definition cpu_execute_BRK :: "u16 \<Rightarrow> ClemensMachine \<Rightarrow> u16 \<times> ClemensMachine" where
  "cpu_execute_BRK tmp_pc clem =
     (let (tmp_data, tmp_pc1, clem1) = clem_read_pba clem tmp_pc;
          (pbr, tmp_pc2, clem2) =
             (if pins_emulation clem1
              then clem_irq_brk_setup clem1 (regs_PBR clem1) tmp_pc1
                     CLEM_6502_IRQBRK_VECTOR_LO_ADDR CLEM_6502_IRQBRK_VECTOR_HI_ADDR True
              else clem_irq_brk_setup clem1 (regs_PBR clem1) tmp_pc1
                     CLEM_65816_BRK_VECTOR_LO_ADDR CLEM_65816_BRK_VECTOR_HI_ADDR True)
      in (tmp_pc2, clem2\<lparr>regs_PBR := pbr\<rparr>))"

definition cpu_execute_COP :: "u16 \<Rightarrow> ClemensMachine \<Rightarrow> u16 \<times> ClemensMachine" where
  "cpu_execute_COP tmp_pc clem =
     (let (tmp_data, tmp_pc1, clem1) = clem_read_pba clem tmp_pc;
          (pbr, tmp_pc2, clem2) =
             (if pins_emulation clem1
              then clem_irq_brk_setup clem1 (regs_PBR clem1) tmp_pc1
                     CLEM_6502_COP_VECTOR_LO_ADDR CLEM_6502_COP_VECTOR_LO_ADDR True
              else clem_irq_brk_setup clem1 (regs_PBR clem1) tmp_pc1
                     CLEM_65816_COP_VECTOR_LO_ADDR CLEM_65816_COP_VECTOR_HI_ADDR True)
      in (tmp_pc2, clem2\<lparr>regs_PBR := pbr\<rparr>))"

text \<open>
  One arm of the switch.  \<open>ndebug\<close> is true in a release build, where \<^verbatim>\<open>assert\<close>
  expands to nothing.  The result is the local program counter and the machine, or the
  error the arm stops with.
\<close>

definition cpu_execute_case ::
  "bool \<Rightarrow> opcode_case \<Rightarrow> u8 \<Rightarrow> bool \<Rightarrow> u16 \<Rightarrow> ClemensMachine
     \<Rightarrow> error + (u16 \<times> ClemensMachine)" where
  "cpu_execute_case ndebug sel IR x_status tmp_pc clem =
     (case sel of
        Case_CLC \<Rightarrow>
          Inr (tmp_pc, clem_cycle (clem\<lparr>regs_P := regs_P clem AND NOT kClemensCPUStatus_Carry\<rparr>) 1)
      | Case_SEC \<Rightarrow>
          Inr (tmp_pc, clem_cycle (clem\<lparr>regs_P := regs_P clem OR kClemensCPUStatus_Carry\<rparr>) 1)
      | Case_MVN \<Rightarrow> Inr (cpu_execute_move True x_status tmp_pc clem)
      | Case_MVP \<Rightarrow> Inr (cpu_execute_move False x_status tmp_pc clem)
      | Case_NOP \<Rightarrow> Inr (tmp_pc, clem_cycle clem 1)
      | Case_REP \<Rightarrow> Inr (cpu_execute_REP tmp_pc clem)
      | Case_SEP \<Rightarrow> Inr (cpu_execute_SEP tmp_pc clem)
      | Case_XCE \<Rightarrow> Inr (tmp_pc, cpu_execute_XCE clem)
      | Case_BRK \<Rightarrow> Inr (cpu_execute_BRK tmp_pc clem)
      | Case_COP \<Rightarrow> Inr (cpu_execute_COP tmp_pc clem)
      | Case_WAI \<Rightarrow> Inr (tmp_pc, (clem_cycle clem 2)\<lparr>pins_readyOut := False\<rparr>)
      | Case_STP \<Rightarrow> Inr (tmp_pc, (clem_cycle clem 2)\<lparr>cpu_enabled := False\<rparr>)
      | Case_other \<Rightarrow> Inl (OpcodeNotModelled IR)
      | Case_default \<Rightarrow>
          (let clem1 = CLEM_WARN ''Unknown IR'' clem
           in if ndebug then Inr (tmp_pc, clem1) else Inl AssertionFailed))"

text \<open>
  \<^verbatim>\<open>cpu_execute\<close> with the selection of the arm as a parameter: the entry assertion,
  the opcode fetch at \<open>PBR:PC\<close>, the selected arm, and the store of the local program
  counter.  The trace record the function builds for the debug callback changes nothing
  in the machine.
\<close>

definition cpu_execute_with ::
  "(u8 \<Rightarrow> opcode_case) \<Rightarrow> bool \<Rightarrow> ClemensMachine \<Rightarrow> error + ClemensMachine" where
  "cpu_execute_with sel ndebug clem =
     (if \<not> ndebug \<and> cpu_state_type clem \<noteq> kClemensCPUStateType_Execute
      then Inl AssertionFailed
      else
        (let tmp_pc = regs_PC clem;
             (IR, clem1) = clem_read clem tmp_pc (regs_PBR clem);
             clem2 = clem1\<lparr>regs_IR := IR\<rparr>;
             x_status = (regs_P clem2 AND kClemensCPUStatus_Index \<noteq> 0)
         in case cpu_execute_case ndebug (sel IR) IR x_status (tmp_pc + 1) clem2 of
              Inl e \<Rightarrow> Inl e
            | Inr (tmp_pc1, clem3) \<Rightarrow> Inr (clem3\<lparr>regs_PC := tmp_pc1\<rparr>)))"

definition cpu_execute :: "bool \<Rightarrow> ClemensMachine \<Rightarrow> error + ClemensMachine" where
  "cpu_execute ndebug clem = cpu_execute_with opcode_switch ndebug clem"

section \<open>The step entry point\<close>

text \<open>The register and pin state forced when reset is first seen asserted.\<close>

definition reset_entry :: "ClemensMachine \<Rightarrow> ClemensMachine" where
  "reset_entry clem =
     (let c1 = clem\<lparr>cpu_state_type := kClemensCPUStateType_Reset,
                    regs_D := 0x0000, regs_DBR := 0x00, regs_PBR := 0x00\<rparr>;
          c2 = c1\<lparr>regs_S := regs_S c1 AND 0x00ff\<rparr>;
          c3 = c2\<lparr>regs_S := regs_S c2 OR 0x0100,
                  regs_X := regs_X c2 AND 0x00ff,
                  regs_Y := regs_Y c2 AND 0x00ff\<rparr>;
          c4 = c3\<lparr>regs_P := regs_P c3 AND NOT (kClemensCPUStatus_MemoryAccumulator
                                OR kClemensCPUStatus_Index OR kClemensCPUStatus_Decimal
                                OR kClemensCPUStatus_IRQDisable OR kClemensCPUStatus_Carry)\<rparr>;
          c5 = c4\<lparr>regs_P := regs_P c4 OR (kClemensCPUStatus_MemoryAccumulator
                                OR kClemensCPUStatus_Index OR kClemensCPUStatus_IRQDisable)\<rparr>;
          c6 = c5\<lparr>pins_emulation := True, pins_readyOut := True, cpu_enabled := True\<rparr>
      in clem_cycle c6 1)"

text \<open>
  \<^verbatim>\<open>clemens_emulate_cpu\<close>: reset held low, the disabled core, the Reset state, the
  IRQ and NMI states, and otherwise one instruction.  The debug device that the function
  also updates (\<^verbatim>\<open>dev_debug\<close>) is not part of the modelled machine.
\<close>

definition clemens_emulate_cpu :: "bool \<Rightarrow> ClemensMachine \<Rightarrow> error + ClemensMachine" where
  "clemens_emulate_cpu ndebug clem =
     (if \<not> pins_resbIn clem then
        (let c1 = (if cpu_state_type clem \<noteq> kClemensCPUStateType_Reset
                   then reset_entry clem else clem);
             c2 = clem_cycle c1 1
         in if resb_counter c2 > 0
            then (let c3 = c2\<lparr>resb_counter := resb_counter c2 - 1\<rparr>
                  in Inr (if resb_counter c3 \<le> 0 then c3\<lparr>pins_resbIn := True\<rparr> else c3))
            else Inr c2)
      else if \<not> cpu_enabled clem then Inr clem
      else if cpu_state_type clem = kClemensCPUStateType_Reset then
        (let (tmp_data, c1) = clem_read clem (regs_S clem) 0x00;
             tmp_addr = regs_S c1 - 1;
             tmp_addr1 = (if pins_emulation c1 then CLEM_UTIL_set16_lo (regs_S c1) tmp_addr
                          else tmp_addr);
             (tmp_datahi, c2) = clem_read c1 tmp_addr1 0x00;
             c3 = cpu_sp_dec2 c2;
             (tmp_data1, c4) = clem_read c3 (regs_S c3) 0x00;
             c5 = cpu_sp_dec c4;
             (pc, c6) = clem_read_interrupt_vector c5 CLEM_6502_RESET_VECTOR_LO_ADDR
                          CLEM_6502_RESET_VECTOR_HI_ADDR
         in Inr (c6\<lparr>regs_PC := pc, cpu_state_type := kClemensCPUStateType_Execute\<rparr>))
      else if cpu_state_type clem = kClemensCPUStateType_IRQ
              \<or> cpu_state_type clem = kClemensCPUStateType_NMI then
        (let nmi = (cpu_state_type clem = kClemensCPUStateType_NMI);
             vlo = (if pins_emulation clem
                    then (if nmi then CLEM_6502_NMI_VECTOR_LO_ADDR
                          else CLEM_6502_IRQBRK_VECTOR_LO_ADDR)
                    else (if nmi then CLEM_65816_NMI_VECTOR_LO_ADDR
                          else CLEM_65816_IRQB_VECTOR_LO_ADDR));
             vhi = (if pins_emulation clem
                    then (if nmi then CLEM_6502_NMI_VECTOR_HI_ADDR
                          else CLEM_6502_IRQBRK_VECTOR_HI_ADDR)
                    else (if nmi then CLEM_65816_NMI_VECTOR_LO_ADDR
                          else CLEM_65816_IRQB_VECTOR_HI_ADDR));
             c1 = clem_cycle clem 2;
             (pbr, pc, c2) = clem_irq_brk_setup c1 (regs_PBR c1) (regs_PC c1) vlo vhi False
         in Inr (c2\<lparr>regs_PBR := pbr, regs_PC := pc,
                    cpu_state_type := kClemensCPUStateType_Execute\<rparr>))
      else cpu_execute ndebug clem)"

section \<open>Dumping bank memory\<close>

text \<open>
  \<^verbatim>\<open>memcpy(out + dst, memory + src, n)\<close> from a bank block into the caller's buffer of
  \<open>out_size\<close> bytes; \<open>memory\<close> is \<open>None\<close> for a \<^verbatim>\<open>NULL\<close> block.  A copy of no bytes
  touches nothing.  The blocks of the model are separate 64 KiB objects, so a copy that
  leaves the block, or the caller's buffer, is reported as out of bounds.  (The only
  over-long sizes \<^verbatim>\<open>clemens_out_bin_data\<close> can compute are at least \<open>2^32 - 0xffff\<close>,
  more than any buffer the host can have handed over.)
\<close>

definition memcpy_from_bank ::
  "(nat \<Rightarrow> u8) \<Rightarrow> nat \<Rightarrow> nat \<Rightarrow> (nat \<Rightarrow> u8) option \<Rightarrow> nat \<Rightarrow> nat
     \<Rightarrow> error + (nat \<Rightarrow> u8)" where
  "memcpy_from_bank out out_size dst memory src n =
     (if n = 0 then Inr out
      else case memory of
             None \<Rightarrow> Inl NullPointerAccess
           | Some block \<Rightarrow>
               if src + n > CLEM_IIGS_BANK_SIZE \<or> dst + n > out_size
               then Inl MemcpyOutOfBounds
               else Inr (\<lambda>i. if dst \<le> i \<and> i < dst + n then block (src + (i - dst))
                             else out i))"

text \<open>
  \<^verbatim>\<open>clemens_out_bin_data\<close>.  \<open>out\<close> is the caller's buffer and \<open>out_size\<close> its size;
  the arithmetic on \<^verbatim>\<open>unsigned\<close> is 32-bit and wraps.
\<close>

definition clemens_out_bin_data ::
  "ClemensMachine \<Rightarrow> (nat \<Rightarrow> u8) \<Rightarrow> nat \<Rightarrow> u32 \<Rightarrow> u8 \<Rightarrow> u16 \<Rightarrow> error + (nat \<Rightarrow> u8)" where
  "clemens_out_bin_data clem out out_size out_byte_cnt bank adr =
     (let memory = map_option (ram clem) (bank_memory clem bank);
          cnt = (if out_byte_cnt > 0x10000 then 0x10000 else out_byte_cnt);
          left0 = (ucast adr :: u32);
          right0 = (ucast adr :: u32) + cnt
      in if right0 > 0x10000 then
           (let left1 = (0 :: u32);
                right1 = right0 - 0x10000;
                right0' = right0 AND 0xffff
            in case memcpy_from_bank out out_size (unat right1) memory (unat left1)
                      (unat (right1 - left1)) of
                 Inl e \<Rightarrow> Inl e
               | Inr out1 \<Rightarrow>
                   memcpy_from_bank out1 out_size 0 memory (unat left0)
                     (unat (right0' - left0)))
         else memcpy_from_bank out out_size 0 memory (unat left0) (unat (right0 - left0)))"

section \<open>Loading Intel HEX text\<close>
















subsection \<open>Records and iterations\<close>

















section \<open>Concrete machines\<close>

text \<open>
  A small configured machine for evaluating the code: reset and IRQ lines released, the
  core enabled, four fast-RAM banks mapped and every other bank on the empty page.  The
  byte at offset \<open>a\<close> of every block is \<open>a mod 256\<close>.
\<close>

definition demo_machine :: ClemensMachine where
  "demo_machine =
     uninitialized_machine
       \<lparr>pins_resbIn := True, pins_irqbIn := True, pins_readyOut := True, cpu_enabled := True,
        tspec_clocks_step := 1, tspec_clocks_step_fast := 1, tspec_clocks_step_mega2 := 5,
        fpi_bank_map := (\<lambda>i. if i < 4 then Some (FpiRamBank i) else Some EmptyRam),
        fpi_bank_used := (\<lambda>i. i < 4),
        ram := (\<lambda>p a. word_of_nat a)\<rparr>"

text \<open>
  A native-mode machine with an NMI transition pending, the stack at \<open>0x01FF\<close>.  The
  native NMI vector bytes are \<open>0xEA\<close> at \<open>00:FFEA\<close> and \<open>0xEB\<close> at \<open>00:FFEB\<close>.
\<close>

definition nmi_machine :: ClemensMachine where
  "nmi_machine = demo_machine\<lparr>cpu_state_type := kClemensCPUStateType_NMI,
      regs_S := 0x01FF, regs_PC := 0x2000\<rparr>"

text \<open>
  An emulation-mode machine about to execute COP: the byte at \<open>00:0202\<close> is \<open>0x02\<close>,
  the COP opcode.  The emulation COP vector bytes are \<open>0xF4\<close> at \<open>00:FFF4\<close> and
  \<open>0xF5\<close> at \<open>00:FFF5\<close>.
\<close>

definition cop_machine :: ClemensMachine where
  "cop_machine = demo_machine\<lparr>pins_emulation := True, regs_P := 0x30,
      regs_S := 0x01FF, regs_PC := 0x0202\<rparr>"

text \<open>A machine about to execute WAI at \<open>00:1000\<close>, with NOP behind it at \<open>00:1001\<close>.\<close>

definition wai_machine :: ClemensMachine where
  "wai_machine = (poke (poke demo_machine 0 0x1000 CLEM_OPC_WAI) 0 0x1001 CLEM_OPC_NOP)
     \<lparr>regs_PC := 0x1000\<rparr>"

text \<open>A bank byte names writable memory when it resolves to a block that is not read-only.\<close>

definition bank_writable :: "ClemensMachine \<Rightarrow> u8 \<Rightarrow> bool" where
  "bank_writable c b =
     (case bank_memory c b of None \<Rightarrow> False | Some p \<Rightarrow> \<not> bank_read_only p)"



text \<open>
  A native-mode machine in the middle of a program, with decimal mode on and the core
  stopped, on which the host asserts reset; and the machine after each of the three
  calls made while reset is held low.
\<close>

definition reset_machine :: ClemensMachine where
  "reset_machine = demo_machine\<lparr>pins_resbIn := False, cpu_enabled := False,
      regs_P := 0x09, regs_S := 0x2FFF, regs_D := 0x1200, regs_PBR := 0x02,
      regs_DBR := 0x03, regs_X := 0x1234, regs_Y := 0x5678, regs_PC := 0x4000\<rparr>"









text \<open>
  A machine about to execute \<^verbatim>\<open>MVN\<close> at \<open>00:1000\<close> with destination bank 1 and source
  bank 2, X = \<open>0x0010\<close>, Y = \<open>0x0020\<close> and one byte left to move (A = 0).
\<close>

definition mvn_machine :: ClemensMachine where
  "mvn_machine =
     (poke (poke (poke demo_machine 0 0x1000 CLEM_OPC_MVN) 0 0x1001 0x01) 0 0x1002 0x02)
       \<lparr>regs_PC := 0x1000, regs_X := 0x0010, regs_Y := 0x0020, regs_A := 0\<rparr>"


section \<open>Unfolding the model\<close>

lemmas cpu_defs = clemens_emulate_cpu_def cpu_execute_def cpu_execute_with_def cpu_execute_case_def
  opcode_switch_def clem_irq_brk_setup_def clem_read_interrupt_vector_def clem_opc_push_8_def
  cpu_sp_dec_def cpu_sp_dec2_def cpu_sp_dec_n_def clem_read_def clem_write_def clem_read_pba_def
  clem_mem_cycle_def clem_cycle_def peek_def poke_def bank_memory_def bank_read_only_def
  CLEM_UTIL_set16_lo_def cpu_execute_COP_def cpu_execute_BRK_def cpu_p_flags_apply_m_x_def
  CLEM_WARN_def

lemmas const_defs = CLEM_6502_COP_VECTOR_LO_ADDR_def CLEM_6502_COP_VECTOR_HI_ADDR_def
  CLEM_6502_NMI_VECTOR_LO_ADDR_def CLEM_6502_NMI_VECTOR_HI_ADDR_def
  CLEM_6502_RESET_VECTOR_LO_ADDR_def CLEM_6502_RESET_VECTOR_HI_ADDR_def
  CLEM_6502_IRQBRK_VECTOR_LO_ADDR_def CLEM_6502_IRQBRK_VECTOR_HI_ADDR_def
  CLEM_65816_COP_VECTOR_LO_ADDR_def CLEM_65816_COP_VECTOR_HI_ADDR_def
  CLEM_65816_BRK_VECTOR_LO_ADDR_def CLEM_65816_BRK_VECTOR_HI_ADDR_def
  CLEM_65816_NMI_VECTOR_LO_ADDR_def CLEM_65816_NMI_VECTOR_HI_ADDR_def
  CLEM_65816_IRQB_VECTOR_LO_ADDR_def CLEM_65816_IRQB_VECTOR_HI_ADDR_def
  kClemensCPUStatus_Carry_def kClemensCPUStatus_Zero_def kClemensCPUStatus_IRQDisable_def
  kClemensCPUStatus_Decimal_def kClemensCPUStatus_Index_def
  kClemensCPUStatus_MemoryAccumulator_def kClemensCPUStatus_Overflow_def
  kClemensCPUStatus_Negative_def kClemensCPUStatus_EmulatedBrk_def
  CLEM_OPC_BRK_def CLEM_OPC_COP_def CLEM_OPC_CLC_def CLEM_OPC_SEC_def CLEM_OPC_MVP_def
  CLEM_OPC_MVN_def CLEM_OPC_REP_def CLEM_OPC_WAI_def CLEM_OPC_STP_def CLEM_OPC_SEP_def
  CLEM_OPC_NOP_def CLEM_OPC_XCE_def

lemmas mach_defs = nmi_machine_def cop_machine_def wai_machine_def mvn_machine_def
  reset_machine_def demo_machine_def uninitialized_machine_def

section \<open>Frame lemmas\<close>

text \<open>
  What a bank byte resolves to, and the byte read there, depend only on the two bank maps
  and on the contents of the blocks.
\<close>

lemma bank_memory_frame [simp]:
  "bank_memory (regs_A_update f1 c) = bank_memory c"
  "bank_memory (regs_X_update f2 c) = bank_memory c"
  "bank_memory (regs_Y_update f3 c) = bank_memory c"
  "bank_memory (regs_D_update f4 c) = bank_memory c"
  "bank_memory (regs_S_update f5 c) = bank_memory c"
  "bank_memory (regs_PC_update f6 c) = bank_memory c"
  "bank_memory (regs_IR_update f7 c) = bank_memory c"
  "bank_memory (regs_P_update f8 c) = bank_memory c"
  "bank_memory (regs_DBR_update f9 c) = bank_memory c"
  "bank_memory (regs_PBR_update f10 c) = bank_memory c"
  "bank_memory (pins_emulation_update f11 c) = bank_memory c"
  "bank_memory (pins_resbIn_update f12 c) = bank_memory c"
  "bank_memory (pins_irqbIn_update f13 c) = bank_memory c"
  "bank_memory (pins_readyOut_update f14 c) = bank_memory c"
  "bank_memory (cpu_state_type_update f15 c) = bank_memory c"
  "bank_memory (cpu_cycles_spent_update f16 c) = bank_memory c"
  "bank_memory (cpu_enabled_update f17 c) = bank_memory c"
  "bank_memory (tspec_clocks_step_update f18 c) = bank_memory c"
  "bank_memory (tspec_clocks_step_fast_update f19 c) = bank_memory c"
  "bank_memory (tspec_clocks_step_mega2_update f20 c) = bank_memory c"
  "bank_memory (tspec_clocks_spent_update f21 c) = bank_memory c"
  "bank_memory (resb_counter_update f22 c) = bank_memory c"
  "bank_memory (fpi_bank_used_update f23 c) = bank_memory c"
  "bank_memory (bank_page_map_update f24 c) = bank_memory c"
  "bank_memory (ram_update f25 c) = bank_memory c"
  "bank_memory (warnings_update f26 c) = bank_memory c"
  by (rule ext, simp add: bank_memory_def cong: if_cong)+

lemma peek_frame [simp]:
  "peek (regs_A_update f27 c) = peek c"
  "peek (regs_X_update f28 c) = peek c"
  "peek (regs_Y_update f29 c) = peek c"
  "peek (regs_D_update f30 c) = peek c"
  "peek (regs_S_update f31 c) = peek c"
  "peek (regs_PC_update f32 c) = peek c"
  "peek (regs_IR_update f33 c) = peek c"
  "peek (regs_P_update f34 c) = peek c"
  "peek (regs_DBR_update f35 c) = peek c"
  "peek (regs_PBR_update f36 c) = peek c"
  "peek (pins_emulation_update f37 c) = peek c"
  "peek (pins_resbIn_update f38 c) = peek c"
  "peek (pins_irqbIn_update f39 c) = peek c"
  "peek (pins_readyOut_update f40 c) = peek c"
  "peek (cpu_state_type_update f41 c) = peek c"
  "peek (cpu_cycles_spent_update f42 c) = peek c"
  "peek (cpu_enabled_update f43 c) = peek c"
  "peek (tspec_clocks_step_update f44 c) = peek c"
  "peek (tspec_clocks_step_fast_update f45 c) = peek c"
  "peek (tspec_clocks_step_mega2_update f46 c) = peek c"
  "peek (tspec_clocks_spent_update f47 c) = peek c"
  "peek (resb_counter_update f48 c) = peek c"
  "peek (fpi_bank_used_update f49 c) = peek c"
  "peek (bank_page_map_update f50 c) = peek c"
  "peek (warnings_update f51 c) = peek c"
  by (rule ext, rule ext, simp add: peek_def cong: option.case_cong)+

text \<open>A store into a block changes nothing but the contents of the blocks.\<close>

lemma poke_frame [simp]:
  "regs_A (poke c b a d) = regs_A c"
  "regs_X (poke c b a d) = regs_X c"
  "regs_Y (poke c b a d) = regs_Y c"
  "regs_D (poke c b a d) = regs_D c"
  "regs_S (poke c b a d) = regs_S c"
  "regs_PC (poke c b a d) = regs_PC c"
  "regs_IR (poke c b a d) = regs_IR c"
  "regs_P (poke c b a d) = regs_P c"
  "regs_DBR (poke c b a d) = regs_DBR c"
  "regs_PBR (poke c b a d) = regs_PBR c"
  "pins_emulation (poke c b a d) = pins_emulation c"
  "pins_resbIn (poke c b a d) = pins_resbIn c"
  "pins_irqbIn (poke c b a d) = pins_irqbIn c"
  "pins_readyOut (poke c b a d) = pins_readyOut c"
  "cpu_state_type (poke c b a d) = cpu_state_type c"
  "cpu_cycles_spent (poke c b a d) = cpu_cycles_spent c"
  "cpu_enabled (poke c b a d) = cpu_enabled c"
  "tspec_clocks_step (poke c b a d) = tspec_clocks_step c"
  "tspec_clocks_step_fast (poke c b a d) = tspec_clocks_step_fast c"
  "tspec_clocks_step_mega2 (poke c b a d) = tspec_clocks_step_mega2 c"
  "tspec_clocks_spent (poke c b a d) = tspec_clocks_spent c"
  "resb_counter (poke c b a d) = resb_counter c"
  "fpi_bank_map (poke c b a d) = fpi_bank_map c"
  "fpi_bank_used (poke c b a d) = fpi_bank_used c"
  "mega2_bank_map (poke c b a d) = mega2_bank_map c"
  "bank_page_map (poke c b a d) = bank_page_map c"
  "warnings (poke c b a d) = warnings c"
  by (simp_all add: poke_def split: option.splits)

lemma bank_memory_poke [simp]: "bank_memory (poke c b a d) = bank_memory c"
  by (rule ext, simp add: bank_memory_def)

lemma ram_poke:
  "ram (poke c b a d) =
     (case bank_memory c b of
        None \<Rightarrow> ram c
      | Some p \<Rightarrow> if bank_read_only p then ram c
                  else (ram c)(p := (ram c p)(unat a := d)))"
  by (simp add: poke_def split: option.splits)

lemma peek_poke:
  "peek (poke c b a d) b' a' =
     (if bank_writable c b \<and> bank_memory c b' = bank_memory c b \<and> a' = a then d
      else peek c b' a')"
  by (auto simp: peek_def poke_def bank_writable_def word_unat_eq_iff [symmetric]
      split: option.splits)

text \<open>A bus cycle touches only the cycle counter and the timestamp.\<close>

lemma clem_mem_cycle_sel [simp]:
  "regs_A (clem_mem_cycle c bank) = regs_A c"
  "regs_X (clem_mem_cycle c bank) = regs_X c"
  "regs_Y (clem_mem_cycle c bank) = regs_Y c"
  "regs_D (clem_mem_cycle c bank) = regs_D c"
  "regs_S (clem_mem_cycle c bank) = regs_S c"
  "regs_PC (clem_mem_cycle c bank) = regs_PC c"
  "regs_IR (clem_mem_cycle c bank) = regs_IR c"
  "regs_P (clem_mem_cycle c bank) = regs_P c"
  "regs_DBR (clem_mem_cycle c bank) = regs_DBR c"
  "regs_PBR (clem_mem_cycle c bank) = regs_PBR c"
  "pins_emulation (clem_mem_cycle c bank) = pins_emulation c"
  "pins_resbIn (clem_mem_cycle c bank) = pins_resbIn c"
  "pins_irqbIn (clem_mem_cycle c bank) = pins_irqbIn c"
  "pins_readyOut (clem_mem_cycle c bank) = pins_readyOut c"
  "cpu_state_type (clem_mem_cycle c bank) = cpu_state_type c"
  "cpu_cycles_spent (clem_mem_cycle c bank) = cpu_cycles_spent c + 1"
  "cpu_enabled (clem_mem_cycle c bank) = cpu_enabled c"
  "tspec_clocks_step (clem_mem_cycle c bank) = tspec_clocks_step c"
  "tspec_clocks_step_fast (clem_mem_cycle c bank) = tspec_clocks_step_fast c"
  "tspec_clocks_step_mega2 (clem_mem_cycle c bank) = tspec_clocks_step_mega2 c"
  "tspec_clocks_spent (clem_mem_cycle c bank) = tspec_clocks_spent c
       + ucast (if bank = 0xe0 \<or> bank = 0xe1 then tspec_clocks_step_mega2 c
                else tspec_clocks_step c)"
  "resb_counter (clem_mem_cycle c bank) = resb_counter c"
  "fpi_bank_map (clem_mem_cycle c bank) = fpi_bank_map c"
  "fpi_bank_used (clem_mem_cycle c bank) = fpi_bank_used c"
  "mega2_bank_map (clem_mem_cycle c bank) = mega2_bank_map c"
  "bank_page_map (clem_mem_cycle c bank) = bank_page_map c"
  "ram (clem_mem_cycle c bank) = ram c"
  "warnings (clem_mem_cycle c bank) = warnings c"
  "bank_memory (clem_mem_cycle c bank) = bank_memory c"
  "peek (clem_mem_cycle c bank) = peek c"
  by (simp_all add: clem_mem_cycle_def)

text \<open>Internal cycles touch only the cycle counter and the timestamp.\<close>

lemma clem_cycle_sel [simp]:
  "regs_A (clem_cycle c n) = regs_A c"
  "regs_X (clem_cycle c n) = regs_X c"
  "regs_Y (clem_cycle c n) = regs_Y c"
  "regs_D (clem_cycle c n) = regs_D c"
  "regs_S (clem_cycle c n) = regs_S c"
  "regs_PC (clem_cycle c n) = regs_PC c"
  "regs_IR (clem_cycle c n) = regs_IR c"
  "regs_P (clem_cycle c n) = regs_P c"
  "regs_DBR (clem_cycle c n) = regs_DBR c"
  "regs_PBR (clem_cycle c n) = regs_PBR c"
  "pins_emulation (clem_cycle c n) = pins_emulation c"
  "pins_resbIn (clem_cycle c n) = pins_resbIn c"
  "pins_irqbIn (clem_cycle c n) = pins_irqbIn c"
  "pins_readyOut (clem_cycle c n) = pins_readyOut c"
  "cpu_state_type (clem_cycle c n) = cpu_state_type c"
  "cpu_cycles_spent (clem_cycle c n) = cpu_cycles_spent c + n"
  "cpu_enabled (clem_cycle c n) = cpu_enabled c"
  "tspec_clocks_step (clem_cycle c n) = tspec_clocks_step c"
  "tspec_clocks_step_fast (clem_cycle c n) = tspec_clocks_step_fast c"
  "tspec_clocks_step_mega2 (clem_cycle c n) = tspec_clocks_step_mega2 c"
  "tspec_clocks_spent (clem_cycle c n) = tspec_clocks_spent c + ucast (tspec_clocks_step c) * ucast n"
  "resb_counter (clem_cycle c n) = resb_counter c"
  "fpi_bank_map (clem_cycle c n) = fpi_bank_map c"
  "fpi_bank_used (clem_cycle c n) = fpi_bank_used c"
  "mega2_bank_map (clem_cycle c n) = mega2_bank_map c"
  "bank_page_map (clem_cycle c n) = bank_page_map c"
  "ram (clem_cycle c n) = ram c"
  "warnings (clem_cycle c n) = warnings c"
  "bank_memory (clem_cycle c n) = bank_memory c"
  "peek (clem_cycle c n) = peek c"
  by (simp_all add: clem_cycle_def)

text \<open>The stack-pointer helpers touch only S.\<close>

lemma cpu_sp_dec_n_frame [simp]:
  "regs_S (cpu_sp_dec_n n c)
     = (if pins_emulation c then CLEM_UTIL_set16_lo (regs_S c) (regs_S c - n)
        else regs_S c - n)"
  "regs_A (cpu_sp_dec_n n c) = regs_A c"
  "regs_X (cpu_sp_dec_n n c) = regs_X c"
  "regs_Y (cpu_sp_dec_n n c) = regs_Y c"
  "regs_D (cpu_sp_dec_n n c) = regs_D c"
  "regs_PC (cpu_sp_dec_n n c) = regs_PC c"
  "regs_IR (cpu_sp_dec_n n c) = regs_IR c"
  "regs_P (cpu_sp_dec_n n c) = regs_P c"
  "regs_DBR (cpu_sp_dec_n n c) = regs_DBR c"
  "regs_PBR (cpu_sp_dec_n n c) = regs_PBR c"
  "pins_emulation (cpu_sp_dec_n n c) = pins_emulation c"
  "pins_resbIn (cpu_sp_dec_n n c) = pins_resbIn c"
  "pins_irqbIn (cpu_sp_dec_n n c) = pins_irqbIn c"
  "pins_readyOut (cpu_sp_dec_n n c) = pins_readyOut c"
  "cpu_state_type (cpu_sp_dec_n n c) = cpu_state_type c"
  "cpu_cycles_spent (cpu_sp_dec_n n c) = cpu_cycles_spent c"
  "cpu_enabled (cpu_sp_dec_n n c) = cpu_enabled c"
  "tspec_clocks_step (cpu_sp_dec_n n c) = tspec_clocks_step c"
  "tspec_clocks_step_mega2 (cpu_sp_dec_n n c) = tspec_clocks_step_mega2 c"
  "tspec_clocks_spent (cpu_sp_dec_n n c) = tspec_clocks_spent c"
  "resb_counter (cpu_sp_dec_n n c) = resb_counter c"
  "ram (cpu_sp_dec_n n c) = ram c"
  "warnings (cpu_sp_dec_n n c) = warnings c"
  "bank_memory (cpu_sp_dec_n n c) = bank_memory c"
  "peek (cpu_sp_dec_n n c) = peek c"
  by (simp_all add: cpu_sp_dec_n_def Let_def)

text \<open>A store commutes with every update that leaves the memory alone.\<close>

lemma poke_commute [simp]:
  "poke (regs_A_update g101 c) b a d = regs_A_update g101 (poke c b a d)"
  "poke (regs_X_update g102 c) b a d = regs_X_update g102 (poke c b a d)"
  "poke (regs_Y_update g103 c) b a d = regs_Y_update g103 (poke c b a d)"
  "poke (regs_D_update g104 c) b a d = regs_D_update g104 (poke c b a d)"
  "poke (regs_S_update g105 c) b a d = regs_S_update g105 (poke c b a d)"
  "poke (regs_PC_update g106 c) b a d = regs_PC_update g106 (poke c b a d)"
  "poke (regs_IR_update g107 c) b a d = regs_IR_update g107 (poke c b a d)"
  "poke (regs_P_update g108 c) b a d = regs_P_update g108 (poke c b a d)"
  "poke (regs_DBR_update g109 c) b a d = regs_DBR_update g109 (poke c b a d)"
  "poke (regs_PBR_update g110 c) b a d = regs_PBR_update g110 (poke c b a d)"
  "poke (pins_emulation_update g111 c) b a d = pins_emulation_update g111 (poke c b a d)"
  "poke (pins_resbIn_update g112 c) b a d = pins_resbIn_update g112 (poke c b a d)"
  "poke (pins_irqbIn_update g113 c) b a d = pins_irqbIn_update g113 (poke c b a d)"
  "poke (pins_readyOut_update g114 c) b a d = pins_readyOut_update g114 (poke c b a d)"
  "poke (cpu_state_type_update g115 c) b a d = cpu_state_type_update g115 (poke c b a d)"
  "poke (cpu_cycles_spent_update g116 c) b a d = cpu_cycles_spent_update g116 (poke c b a d)"
  "poke (cpu_enabled_update g117 c) b a d = cpu_enabled_update g117 (poke c b a d)"
  "poke (tspec_clocks_step_update g118 c) b a d = tspec_clocks_step_update g118 (poke c b a d)"
  "poke (tspec_clocks_step_fast_update g119 c) b a d = tspec_clocks_step_fast_update g119 (poke c b a d)"
  "poke (tspec_clocks_step_mega2_update g120 c) b a d = tspec_clocks_step_mega2_update g120 (poke c b a d)"
  "poke (tspec_clocks_spent_update g121 c) b a d = tspec_clocks_spent_update g121 (poke c b a d)"
  "poke (resb_counter_update g122 c) b a d = resb_counter_update g122 (poke c b a d)"
  "poke (fpi_bank_used_update g123 c) b a d = fpi_bank_used_update g123 (poke c b a d)"
  "poke (bank_page_map_update g124 c) b a d = bank_page_map_update g124 (poke c b a d)"
  "poke (warnings_update g125 c) b a d = warnings_update g125 (poke c b a d)"
  "poke (clem_mem_cycle c bank) b a d = clem_mem_cycle (poke c b a d) bank"
  "poke (clem_cycle c n) b a d = clem_cycle (poke c b a d) n"
  by (simp_all add: poke_def clem_mem_cycle_def clem_cycle_def split: option.splits)

text \<open>A bus read returns the byte the bank holds and costs one bus cycle.\<close>

lemma clem_read_eq [simp]:
  "fst (clem_read c a b) = peek c b a"
  "snd (clem_read c a b) = clem_mem_cycle c b"
  by (simp_all add: clem_read_def)

lemma clem_read_pba_eq [simp]:
  "fst (clem_read_pba c pc) = peek c (regs_PBR c) pc"
  "fst (snd (clem_read_pba c pc)) = pc + 1"
  "snd (snd (clem_read_pba c pc)) = clem_mem_cycle c (regs_PBR c)"
  by (simp_all add: clem_read_pba_def clem_read_def)


section \<open>Initialisation: what a failing call leaves behind\<close>

lemma fold_map_bank_fields:
  "pins_resbIn (fold simple_init_map_bank xs m) = pins_resbIn m"
  "pins_irqbIn (fold simple_init_map_bank xs m) = pins_irqbIn m"
  "tspec_clocks_step (fold simple_init_map_bank xs m) = tspec_clocks_step m"
  "tspec_clocks_step_fast (fold simple_init_map_bank xs m) = tspec_clocks_step_fast m"
  "tspec_clocks_step_mega2 (fold simple_init_map_bank xs m) = tspec_clocks_step_mega2 m"
  "tspec_clocks_spent (fold simple_init_map_bank xs m) = tspec_clocks_spent m"
  by (induction xs arbitrary: m; simp add: simple_init_map_bank_def memset_bank_zero_def)+

lemma fold_unmap_bank_fields:
  "pins_resbIn (fold simple_init_unmap_bank xs m) = pins_resbIn m"
  "pins_irqbIn (fold simple_init_unmap_bank xs m) = pins_irqbIn m"
  "tspec_clocks_step (fold simple_init_unmap_bank xs m) = tspec_clocks_step m"
  "tspec_clocks_step_fast (fold simple_init_unmap_bank xs m) = tspec_clocks_step_fast m"
  "tspec_clocks_step_mega2 (fold simple_init_unmap_bank xs m) = tspec_clocks_step_mega2 m"
  "tspec_clocks_spent (fold simple_init_unmap_bank xs m) = tspec_clocks_spent m"
  "ram (fold simple_init_unmap_bank xs m) = ram m"
  by (induction xs arbitrary: m; simp add: simple_init_unmap_bank_def)+

lemma fold_map_bank_map:
  "fpi_bank_map (fold simple_init_map_bank [0 ..< n] m) i =
     (if i < n then Some (FpiRamBank i) else fpi_bank_map m i)"
  by (induction n) (auto simp: simple_init_map_bank_def memset_bank_zero_def)

lemma fold_map_bank_ram:
  "ram (fold simple_init_map_bank [0 ..< n] m) (FpiRamBank i) =
     (if i < n then (\<lambda>_. 0) else ram m (FpiRamBank i))"
  by (induction n) (auto simp: simple_init_map_bank_def memset_bank_zero_def)

lemma fold_unmap_bank_map:
  "fpi_bank_map (fold simple_init_unmap_bank [a ..< b] m) i =
     (if a \<le> i \<and> i < b then Some EmptyRam else fpi_bank_map m i)"
  by (induction b) (auto simp: simple_init_unmap_bank_def)

text \<open>
  With a usable fast-RAM pointer the simple initialisation always returns, and it has
  released the reset and IRQ pins, set the timing fields, and mapped and cleared the
  fast-RAM banks.
\<close>

lemma simple_init_Inr:
  assumes "fpiRAM \<noteq> None \<or> n = 0"
  shows "\<exists>m'. clemens_simple_init machine sf cs fpiRAM n = Inr m'
          \<and> pins_resbIn m' \<and> pins_irqbIn m'
          \<and> tspec_clocks_step m' = cs \<and> tspec_clocks_step_fast m' = cs
          \<and> tspec_clocks_step_mega2 m' = sf \<and> tspec_clocks_spent m' = 0
          \<and> (\<forall>i < min n 256. fpi_bank_map m' i = Some (FpiRamBank i)
                \<and> ram m' (FpiRamBank i) = (\<lambda>_. 0))"
  using assms
  by (auto simp: clemens_simple_init_def Let_def fold_map_bank_fields fold_unmap_bank_fields
        fold_map_bank_map fold_unmap_bank_map fold_map_bank_ram memset_bank_zero_def)

text \<open>
  Claim C7, as stated, fails: a call with the ROM image missing returns \<open>-1\<close> and has
  changed the machine.  On the machine that no call has touched yet, the failing call
  releases the reset pin, and \<^verbatim>\<open>clemens_is_initialized\<close> holds afterwards although it
  did not hold before.
\<close>

theorem clemens_init_failure_counterexample:
  "\<not> isl (clemens_init 129 uninitialized_machine 5 1 None (Some ()) (Some ()) (Some ()) 4)
   \<and> fst (projr (clemens_init 129 uninitialized_machine 5 1 None (Some ()) (Some ()) (Some ()) 4))
       = - 1
   \<and> pins_resbIn (snd (projr
        (clemens_init 129 uninitialized_machine 5 1 None (Some ()) (Some ()) (Some ()) 4)))
   \<and> \<not> pins_resbIn uninitialized_machine
   \<and> clemens_is_initialized (snd (projr
        (clemens_init 129 uninitialized_machine 5 1 None (Some ()) (Some ()) (Some ()) 4)))
   \<and> \<not> clemens_is_initialized uninitialized_machine"
proof -
  have "Some () \<noteq> None \<or> (4::nat) = 0" by simp
  from simple_init_Inr [OF this, of uninitialized_machine 5 1]
  obtain m1 where m1: "clemens_simple_init uninitialized_machine 5 1 (Some ()) 4 = Inr m1"
    and props: "pins_resbIn m1" "tspec_clocks_step m1 = 1" "tspec_clocks_step_mega2 m1 = 5"
      "\<forall>i < min 4 256. fpi_bank_map m1 i = Some (FpiRamBank i)
                     \<and> ram m1 (FpiRamBank i) = (\<lambda>_. 0)"
    by blast
  have maps: "fpi_bank_map m1 0 \<noteq> None" "fpi_bank_map m1 1 \<noteq> None"
    using props(4) by simp_all
  have res: "clemens_init 129 uninitialized_machine 5 1 None (Some ()) (Some ()) (Some ()) 4
               = Inr (- 1, m1)"
    using m1 by (simp add: clemens_init_def)
  have "clemens_is_initialized m1"
    using maps props by (simp add: clemens_is_initialized_def clemens_is_initialized_simple_def)
  moreover have "\<not> clemens_is_initialized uninitialized_machine"
    by (simp add: clemens_is_initialized_def clemens_is_initialized_simple_def
        uninitialized_machine_def)
  moreover have "\<not> pins_resbIn uninitialized_machine"
    by (simp add: uninitialized_machine_def)
  ultimately show ?thesis
    using props(1) by (simp add: res)
qed

text \<open>
  Claim C7, amended.  Given a fast-RAM pointer the simple initialisation can write
  through, \<^verbatim>\<open>clemens_init\<close> returns \<open>-1\<close> when the ROM image is missing, \<open>-2\<close> when the
  ROM is there and the fast-RAM bank count is below 4 or the fast-RAM, E0 or E1 buffer is
  missing, and \<open>0\<close> otherwise.  The simple initialisation runs before the checks: a
  failing call returns the machine exactly as \<^verbatim>\<open>clemens_simple_init\<close> leaves it, with
  the reset and IRQ pins released, the timing fields set and the fast-RAM banks mapped
  and cleared.
\<close>

theorem clemens_init_result:
  assumes "fpiRAM \<noteq> None \<or> fpiRAMBankCount = 0"
  shows "\<exists>m'. clemens_init empty_ram_bank machine speed_factor clocks_step rom e0bank e1bank
                 fpiRAM fpiRAMBankCount
               = Inr (if rom = None then - 1
                      else if fpiRAMBankCount < 4 \<or> fpiRAM = None \<or> e0bank = None
                              \<or> e1bank = None then - 2
                      else 0, m')
          \<and> ((rom = None \<or> fpiRAMBankCount < 4 \<or> fpiRAM = None \<or> e0bank = None
                \<or> e1bank = None) \<longrightarrow>
               clemens_simple_init machine speed_factor clocks_step fpiRAM fpiRAMBankCount
                 = Inr m'
               \<and> pins_resbIn m' \<and> pins_irqbIn m'
               \<and> tspec_clocks_step m' = clocks_step
               \<and> tspec_clocks_step_fast m' = clocks_step
               \<and> tspec_clocks_step_mega2 m' = speed_factor
               \<and> tspec_clocks_spent m' = 0
               \<and> (\<forall>i < min fpiRAMBankCount 256.
                     fpi_bank_map m' i = Some (FpiRamBank i)
                     \<and> ram m' (FpiRamBank i) = (\<lambda>_. 0)))"
proof -
  from simple_init_Inr [OF assms, of machine speed_factor clocks_step]
  obtain m1 where m1: "clemens_simple_init machine speed_factor clocks_step fpiRAM
                          fpiRAMBankCount = Inr m1"
    and props: "pins_resbIn m1" "pins_irqbIn m1" "tspec_clocks_step m1 = clocks_step"
      "tspec_clocks_step_fast m1 = clocks_step" "tspec_clocks_step_mega2 m1 = speed_factor"
      "tspec_clocks_spent m1 = 0"
      "\<forall>i < min fpiRAMBankCount 256. fpi_bank_map m1 i = Some (FpiRamBank i)
                     \<and> ram m1 (FpiRamBank i) = (\<lambda>_. 0)"
    by blast
  show ?thesis
    using m1 props by (simp add: clemens_init_def Let_def)
qed

text \<open>
  Witness for C7: ROM and fast RAM present, four banks, the E1 buffer missing.  The call
  returns \<open>-2\<close> and the machine it hands back has the reset pin released and the clock
  step set.
\<close>

theorem clemens_init_result_witness:
  "\<exists>m'. clemens_init 129 uninitialized_machine 5 1 (Some ()) (Some ()) None (Some ()) 4
           = Inr (- 2, m')
        \<and> pins_resbIn m' \<and> tspec_clocks_step m' = 1
        \<and> fpi_bank_map m' 3 = Some (FpiRamBank 3)"
  using clemens_init_result [of "Some ()" 4 129 uninitialized_machine 5 1 "Some ()" "Some ()" None]
  by auto

section \<open>Dumping bank memory: the wrap-around case\<close>

lemma unat_ucast_16_32: "unat (ucast (a :: 16 word) :: 32 word) = unat a"
proof -
  have "unat a < 2 ^ 16" using unsigned_less [of a] by simp
  then have "unat a < 2 ^ 32" by simp
  then show ?thesis by (simp add: unsigned_ucast_eq take_bit_nat_eq_self)
qed

text \<open>
  Without wrap-around the dump is right: if \<open>adr + n\<close> stays inside the bank and the
  caller's buffer holds \<open>n\<close> bytes, then \<open>out[i]\<close> is the byte at \<open>adr + i\<close> for every
  \<open>i < n\<close>, and the rest of the buffer is untouched.
\<close>

lemma out_bin_data_no_wrap:
  assumes "unat adr + unat n \<le> 65536" and "unat n \<le> out_size"
    and "bank_memory clem bank = Some p"
  shows "\<exists>out'. clemens_out_bin_data clem out out_size n bank adr = Inr out'
           \<and> (\<forall>i < unat n. out' i = peek clem bank (adr + word_of_nat i))
           \<and> (\<forall>i \<ge> unat n. out' i = out i)"
proof -
  have "unat n \<le> 65536" using assms(1) by simp
  then have n_le: "\<not> n > 0x10000"
    unfolding word_less_nat_alt by simp
  have "unat adr + unat n < 2 ^ 32" using assms(1) by simp
  then have r0: "unat ((ucast adr :: u32) + n) = unat adr + unat n"
    by (simp add: unat_word_ariths unat_ucast_16_32)
  have not_gt: "\<not> (ucast adr :: u32) + n > 0x10000"
    unfolding word_less_nat_alt r0 using assms(1) by simp
  have sz: "(ucast adr :: u32) + n - ucast adr = n"
    by simp
  have idx: "unat (adr + word_of_nat i) = unat adr + i" if "i < unat n" for i
  proof -
    have "unat adr + i < 65536" using that assms(1) by simp
    then show ?thesis by (simp add: unat_word_ariths unat_of_nat)
  qed
  have eq: "clemens_out_bin_data clem out out_size n bank adr
              = Inr (\<lambda>i. if i < unat n then ram clem p (unat adr + i) else out i)"
    using n_le not_gt assms
    by (simp add: clemens_out_bin_data_def memcpy_from_bank_def Let_def sz
        CLEM_IIGS_BANK_SIZE_def unat_ucast_16_32 cong: if_cong)
  show ?thesis
    unfolding eq using idx assms(3) by (simp add: peek_def)
qed

text \<open>
  Claim C10 at a wrap-around input the API allows.  Bank 0 holds the byte \<open>a mod 256\<close> at
  offset \<open>a\<close>; the caller's 65536-byte buffer is filled with \<open>0xEE\<close>.  With \<open>adr = 1\<close>
  and 65536 bytes requested the claim asks for \<open>out[0] = 1\<close> and \<open>out[1] = 2\<close>; the code
  returns with \<open>out[0]\<close> untouched and \<open>out[1] = 0\<close>, the byte of offset 0.  With
  \<open>adr = 0xFFFF\<close> and 2 bytes requested the second copy is asked for
  \<open>2^32 - 0xFFFE\<close> bytes and leaves the bank.
\<close>

theorem out_bin_data_wraparound_eval:
  "\<not> isl (clemens_out_bin_data demo_machine (\<lambda>_. 0xEE) 65536 65536 0 1)
   \<and> projr (clemens_out_bin_data demo_machine (\<lambda>_. 0xEE) 65536 65536 0 1) 0 = 0xEE
   \<and> projr (clemens_out_bin_data demo_machine (\<lambda>_. 0xEE) 65536 65536 0 1) 1 = 0
   \<and> peek demo_machine 0 1 = 1 \<and> peek demo_machine 0 2 = 2 \<and> peek demo_machine 0 0 = 0
   \<and> clemens_out_bin_data demo_machine (\<lambda>_. 0xEE) 65536 2 0 0xFFFF = Inl MemcpyOutOfBounds"
  by (simp add: clemens_out_bin_data_def memcpy_from_bank_def bank_memory_def peek_def
      demo_machine_def uninitialized_machine_def CLEM_IIGS_BANK_SIZE_def Let_def)

section \<open>Interrupt vectors\<close>

text \<open>
  Claim C1 at a native-mode machine with NMI pending.  The native NMI vector holds
  \<open>0xEA\<close> at its low address and \<open>0xEB\<close> at its high address, so the claim asks for
  \<open>PC = 0xEBEA\<close>.  The step selects the low address for both bytes and loads
  \<open>PC = 0xEAEA\<close> before entering Execute.
\<close>

theorem nmi_native_vector_eval:
  "\<not> isl (clemens_emulate_cpu True nmi_machine)
   \<and> \<not> pins_emulation nmi_machine
   \<and> cpu_state_type nmi_machine = kClemensCPUStateType_NMI
   \<and> regs_PC (projr (clemens_emulate_cpu True nmi_machine)) = 0xEAEA
   \<and> cpu_state_type (projr (clemens_emulate_cpu True nmi_machine)) = kClemensCPUStateType_Execute
   \<and> peek nmi_machine 0 CLEM_65816_NMI_VECTOR_LO_ADDR = 0xEA
   \<and> peek nmi_machine 0 CLEM_65816_NMI_VECTOR_HI_ADDR = 0xEB"
  by (simp add: mach_defs cpu_defs const_defs Let_def cong: let_weak_cong)

text \<open>
  Claim C4 at an emulation-mode machine executing COP.  The emulation COP vector holds
  \<open>0xF4\<close> at its low address and \<open>0xF5\<close> at its high address, so the claim asks for
  \<open>PC = 0xF5F4\<close>.  The arm passes the low address for both bytes and loads
  \<open>PC = 0xF4F4\<close>; I is set and D is cleared as the claim says.
\<close>

theorem cop_emulation_vector_eval:
  "\<not> isl (clemens_emulate_cpu True cop_machine)
   \<and> pins_emulation cop_machine
   \<and> peek cop_machine (regs_PBR cop_machine) (regs_PC cop_machine) = CLEM_OPC_COP
   \<and> regs_PC (projr (clemens_emulate_cpu True cop_machine)) = 0xF4F4
   \<and> regs_P (projr (clemens_emulate_cpu True cop_machine)) AND kClemensCPUStatus_IRQDisable \<noteq> 0
   \<and> regs_P (projr (clemens_emulate_cpu True cop_machine)) AND kClemensCPUStatus_Decimal = 0
   \<and> peek cop_machine 0 CLEM_6502_COP_VECTOR_LO_ADDR = 0xF4
   \<and> peek cop_machine 0 CLEM_6502_COP_VECTOR_HI_ADDR = 0xF5"
  by (simp add: mach_defs cpu_defs const_defs Let_def cong: let_weak_cong)

section \<open>WAI\<close>

text \<open>
  Claim C3, as stated, fails.  After WAI at \<open>00:1000\<close> the ready line is low and neither
  the IRQ nor the reset line is asserted (both pins are active-low and read true).  The
  next call to the step entry point nevertheless fetches the NOP at \<open>00:1001\<close> and
  executes it: PC moves from \<open>0x1001\<close> to \<open>0x1002\<close> and the cycle count from 3 to 5.
\<close>

theorem wai_does_not_halt_counterexample:
  "\<not> isl (clemens_emulate_cpu True wai_machine)
   \<and> regs_IR (projr (clemens_emulate_cpu True wai_machine)) = CLEM_OPC_WAI
   \<and> \<not> pins_readyOut (projr (clemens_emulate_cpu True wai_machine))
   \<and> pins_irqbIn (projr (clemens_emulate_cpu True wai_machine))
   \<and> pins_resbIn (projr (clemens_emulate_cpu True wai_machine))
   \<and> regs_PC (projr (clemens_emulate_cpu True wai_machine)) = 0x1001
   \<and> cpu_cycles_spent (projr (clemens_emulate_cpu True wai_machine)) = 3
   \<and> \<not> isl (clemens_emulate_cpu True (projr (clemens_emulate_cpu True wai_machine)))
   \<and> regs_IR (projr (clemens_emulate_cpu True (projr (clemens_emulate_cpu True wai_machine))))
        = CLEM_OPC_NOP
   \<and> regs_PC (projr (clemens_emulate_cpu True (projr (clemens_emulate_cpu True wai_machine))))
        = 0x1002
   \<and> cpu_cycles_spent (projr (clemens_emulate_cpu True
         (projr (clemens_emulate_cpu True wai_machine)))) = 5"
  by (simp add: mach_defs cpu_defs const_defs Let_def cong: let_weak_cong)

text \<open>None of the helpers reads the ready line: each commutes with an update of it.\<close>

lemma ready_outward:
  "regs_A_update g201 (pins_readyOut_update f c) = pins_readyOut_update f (regs_A_update g201 c)"
  "regs_X_update g202 (pins_readyOut_update f c) = pins_readyOut_update f (regs_X_update g202 c)"
  "regs_Y_update g203 (pins_readyOut_update f c) = pins_readyOut_update f (regs_Y_update g203 c)"
  "regs_D_update g204 (pins_readyOut_update f c) = pins_readyOut_update f (regs_D_update g204 c)"
  "regs_S_update g205 (pins_readyOut_update f c) = pins_readyOut_update f (regs_S_update g205 c)"
  "regs_PC_update g206 (pins_readyOut_update f c) = pins_readyOut_update f (regs_PC_update g206 c)"
  "regs_IR_update g207 (pins_readyOut_update f c) = pins_readyOut_update f (regs_IR_update g207 c)"
  "regs_P_update g208 (pins_readyOut_update f c) = pins_readyOut_update f (regs_P_update g208 c)"
  "regs_DBR_update g209 (pins_readyOut_update f c) = pins_readyOut_update f (regs_DBR_update g209 c)"
  "regs_PBR_update g210 (pins_readyOut_update f c) = pins_readyOut_update f (regs_PBR_update g210 c)"
  "pins_emulation_update g211 (pins_readyOut_update f c) = pins_readyOut_update f (pins_emulation_update g211 c)"
  "pins_resbIn_update g212 (pins_readyOut_update f c) = pins_readyOut_update f (pins_resbIn_update g212 c)"
  "pins_irqbIn_update g213 (pins_readyOut_update f c) = pins_readyOut_update f (pins_irqbIn_update g213 c)"
  "cpu_state_type_update g214 (pins_readyOut_update f c) = pins_readyOut_update f (cpu_state_type_update g214 c)"
  "cpu_cycles_spent_update g215 (pins_readyOut_update f c) = pins_readyOut_update f (cpu_cycles_spent_update g215 c)"
  "cpu_enabled_update g216 (pins_readyOut_update f c) = pins_readyOut_update f (cpu_enabled_update g216 c)"
  "tspec_clocks_step_update g217 (pins_readyOut_update f c) = pins_readyOut_update f (tspec_clocks_step_update g217 c)"
  "tspec_clocks_step_fast_update g218 (pins_readyOut_update f c) = pins_readyOut_update f (tspec_clocks_step_fast_update g218 c)"
  "tspec_clocks_step_mega2_update g219 (pins_readyOut_update f c) = pins_readyOut_update f (tspec_clocks_step_mega2_update g219 c)"
  "tspec_clocks_spent_update g220 (pins_readyOut_update f c) = pins_readyOut_update f (tspec_clocks_spent_update g220 c)"
  "resb_counter_update g221 (pins_readyOut_update f c) = pins_readyOut_update f (resb_counter_update g221 c)"
  "fpi_bank_map_update g222 (pins_readyOut_update f c) = pins_readyOut_update f (fpi_bank_map_update g222 c)"
  "fpi_bank_used_update g223 (pins_readyOut_update f c) = pins_readyOut_update f (fpi_bank_used_update g223 c)"
  "mega2_bank_map_update g224 (pins_readyOut_update f c) = pins_readyOut_update f (mega2_bank_map_update g224 c)"
  "bank_page_map_update g225 (pins_readyOut_update f c) = pins_readyOut_update f (bank_page_map_update g225 c)"
  "ram_update g226 (pins_readyOut_update f c) = pins_readyOut_update f (ram_update g226 c)"
  "warnings_update g227 (pins_readyOut_update f c) = pins_readyOut_update f (warnings_update g227 c)"
  by simp_all

lemma ready_commute_prim:
  "clem_mem_cycle (pins_readyOut_update f c) b = pins_readyOut_update f (clem_mem_cycle c b)"
  "clem_cycle (pins_readyOut_update f c) n = pins_readyOut_update f (clem_cycle c n)"
  "cpu_sp_dec_n k (pins_readyOut_update f c) = pins_readyOut_update f (cpu_sp_dec_n k c)"
  "cpu_p_flags_apply_m_x (pins_readyOut_update f c)
     = pins_readyOut_update f (cpu_p_flags_apply_m_x c)"
  "CLEM_WARN msg (pins_readyOut_update f c) = pins_readyOut_update f (CLEM_WARN msg c)"
  by (simp_all add: clem_mem_cycle_def clem_cycle_def cpu_sp_dec_n_def Let_def
      cpu_p_flags_apply_m_x_def CLEM_WARN_def)

lemma ready_commute_bus:
  "clem_read (pins_readyOut_update f c) a b
     = (fst (clem_read c a b), pins_readyOut_update f (snd (clem_read c a b)))"
  "clem_write (pins_readyOut_update f c) d a b = pins_readyOut_update f (clem_write c d a b)"
  "clem_read_pba (pins_readyOut_update f c) pc
     = (fst (clem_read_pba c pc), fst (snd (clem_read_pba c pc)),
        pins_readyOut_update f (snd (snd (clem_read_pba c pc))))"
  "clem_opc_push_8 (pins_readyOut_update f c) d = pins_readyOut_update f (clem_opc_push_8 c d)"
  by (simp_all add: clem_read_def clem_write_def clem_read_pba_def clem_opc_push_8_def
      cpu_sp_dec_def ready_commute_prim)

lemma ready_commute_vector:
  "clem_read_interrupt_vector (pins_readyOut_update f c) lo hi
     = (fst (clem_read_interrupt_vector c lo hi),
        pins_readyOut_update f (snd (clem_read_interrupt_vector c lo hi)))"
  by (simp add: clem_read_interrupt_vector_def ready_commute_bus ready_commute_prim
      Let_def split_def)

lemma ready_commute_irq:
  "clem_irq_brk_setup (pins_readyOut_update f c) pbr pc lo hi brk
     = (fst (clem_irq_brk_setup c pbr pc lo hi brk),
        fst (snd (clem_irq_brk_setup c pbr pc lo hi brk)),
        pins_readyOut_update f (snd (snd (clem_irq_brk_setup c pbr pc lo hi brk))))"
  by (simp add: clem_irq_brk_setup_def ready_commute_vector ready_commute_bus
      ready_commute_prim ready_outward Let_def split_def)

lemma ready_commute_arms:
  "cpu_execute_move fw xs pc (pins_readyOut_update f c)
     = (fst (cpu_execute_move fw xs pc c),
        pins_readyOut_update f (snd (cpu_execute_move fw xs pc c)))"
  "cpu_execute_REP pc (pins_readyOut_update f c)
     = (fst (cpu_execute_REP pc c), pins_readyOut_update f (snd (cpu_execute_REP pc c)))"
  "cpu_execute_SEP pc (pins_readyOut_update f c)
     = (fst (cpu_execute_SEP pc c), pins_readyOut_update f (snd (cpu_execute_SEP pc c)))"
  "cpu_execute_XCE (pins_readyOut_update f c) = pins_readyOut_update f (cpu_execute_XCE c)"
  "cpu_execute_BRK pc (pins_readyOut_update f c)
     = (fst (cpu_execute_BRK pc c), pins_readyOut_update f (snd (cpu_execute_BRK pc c)))"
  "cpu_execute_COP pc (pins_readyOut_update f c)
     = (fst (cpu_execute_COP pc c), pins_readyOut_update f (snd (cpu_execute_COP pc c)))"
  by (simp_all add: cpu_execute_move_def cpu_execute_REP_def cpu_execute_SEP_def
      cpu_execute_XCE_def cpu_execute_BRK_def cpu_execute_COP_def ready_commute_irq
      ready_commute_bus ready_commute_prim ready_outward Let_def split_def)


lemma apsnd_split: "apsnd g p = (fst p, g (snd p))"
  by (cases p) simp

lemma ready_commute_case:
  "map_sum id (apsnd (pins_readyOut_update (\<lambda>_. r)))
       (cpu_execute_case nd sel IR xs pc (pins_readyOut_update f c))
   = map_sum id (apsnd (pins_readyOut_update (\<lambda>_. r))) (cpu_execute_case nd sel IR xs pc c)"
  by (cases sel)
     (simp_all add: cpu_execute_case_def ready_commute_arms ready_commute_prim ready_outward
       apsnd_split)

lemma store_pc_ready:
  "map_sum id (pins_readyOut_update (\<lambda>_. r))
       (case X of Inl e \<Rightarrow> Inl e | Inr (pc1, c3) \<Rightarrow> Inr (c3\<lparr>regs_PC := pc1\<rparr>))
   = (case map_sum id (apsnd (pins_readyOut_update (\<lambda>_. r))) X of
        Inl e \<Rightarrow> Inl e | Inr (pc1, c3) \<Rightarrow> Inr (c3\<lparr>regs_PC := pc1\<rparr>))"
  by (cases X) (auto simp: ready_outward)

lemma ready_commute_execute:
  "map_sum id (pins_readyOut_update (\<lambda>_. r))
       (cpu_execute_with sel nd (pins_readyOut_update f c))
   = map_sum id (pins_readyOut_update (\<lambda>_. r)) (cpu_execute_with sel nd c)"
proof (cases "\<not> nd \<and> cpu_state_type c \<noteq> kClemensCPUStateType_Execute")
  case True
  then show ?thesis by (simp add: cpu_execute_with_def)
next
  case False
  let ?c2 = "(clem_mem_cycle c (regs_PBR c))\<lparr>regs_IR := peek c (regs_PBR c) (regs_PC c)\<rparr>"
  let ?IR = "peek c (regs_PBR c) (regs_PC c)"
  let ?xs = "regs_P c AND kClemensCPUStatus_Index \<noteq> 0"
  have a: "cpu_execute_with sel nd c
             = (case cpu_execute_case nd (sel ?IR) ?IR ?xs (regs_PC c + 1) ?c2 of
                  Inl e \<Rightarrow> Inl e | Inr (pc1, c3) \<Rightarrow> Inr (c3\<lparr>regs_PC := pc1\<rparr>))"
    using False by (auto simp: cpu_execute_with_def Let_def split_def clem_read_def)
  have b: "cpu_execute_with sel nd (pins_readyOut_update f c)
             = (case cpu_execute_case nd (sel ?IR) ?IR ?xs (regs_PC c + 1)
                       (pins_readyOut_update f ?c2) of
                  Inl e \<Rightarrow> Inl e | Inr (pc1, c3) \<Rightarrow> Inr (c3\<lparr>regs_PC := pc1\<rparr>))"
    using False
    by (auto simp: cpu_execute_with_def Let_def split_def clem_read_def ready_commute_prim
        ready_outward)
  show ?thesis
    unfolding a b store_pc_ready ready_commute_case ..
qed

lemma ready_reset_entry:
  "reset_entry (pins_readyOut_update f c) = reset_entry c"
  by (simp add: reset_entry_def Let_def clem_cycle_def)

text \<open>
  The arms written out in the model return a machine; so does every step that is not the
  execution of an instruction.
\<close>

lemma opcode_switch_not_default: "opcode_switch IR \<noteq> Case_default"
  by (simp add: opcode_switch_def)

lemma modelled_arm_returns:
  assumes "sel \<noteq> Case_other" and "sel \<noteq> Case_default"
  shows "\<not> isl (cpu_execute_case nd sel IR xs pc c)"
  using assms by (cases sel) (simp_all add: cpu_execute_case_def)

lemma modelled_step_returns:
  assumes "pins_resbIn clem \<and> cpu_enabled clem
             \<and> cpu_state_type clem = kClemensCPUStateType_Execute
           \<longrightarrow> opcode_switch (peek clem (regs_PBR clem) (regs_PC clem)) \<noteq> Case_other"
  shows "\<not> isl (clemens_emulate_cpu ndebug clem)"
proof -
  consider (low) "\<not> pins_resbIn clem"
    | (off) "pins_resbIn clem" "\<not> cpu_enabled clem"
    | (rst) "pins_resbIn clem" "cpu_enabled clem"
            "cpu_state_type clem = kClemensCPUStateType_Reset"
    | (irq) "pins_resbIn clem" "cpu_enabled clem"
            "cpu_state_type clem = kClemensCPUStateType_IRQ
             \<or> cpu_state_type clem = kClemensCPUStateType_NMI"
    | (exe) "pins_resbIn clem" "cpu_enabled clem"
            "cpu_state_type clem = kClemensCPUStateType_Execute"
    by (cases "cpu_state_type clem") auto
  then show ?thesis
  proof cases
    case low
    then show ?thesis by (simp add: clemens_emulate_cpu_def Let_def)
  next
    case off
    then show ?thesis by (simp add: clemens_emulate_cpu_def)
  next
    case rst
    then show ?thesis by (simp add: clemens_emulate_cpu_def Let_def split_def)
  next
    case irq
    then show ?thesis by (auto simp: clemens_emulate_cpu_def Let_def split_def)
  next
    case exe
    let ?IR = "peek clem (regs_PBR clem) (regs_PC clem)"
    from exe assms have "opcode_switch ?IR \<noteq> Case_other" by simp
    from modelled_arm_returns [OF this opcode_switch_not_default]
    show ?thesis
      using exe
      by (auto simp: clemens_emulate_cpu_def cpu_execute_def cpu_execute_with_def Let_def
          split_def clem_read_def isl_def split: sum.splits)
  qed
qed

text \<open>
  Claim C3, amended.  Executing WAI charges the fetch and two internal cycles, stores the
  opcode in IR, advances PC past it and lowers the ready line; nothing else changes.  The
  step entry point does not consult the ready line.  For the reset and interrupt
  transitions, the disabled core and the instructions CLC, SEC, MVN, MVP, NOP, REP, SEP,
  XCE, BRK, COP, WAI and STP, a call returns a machine, and the same machine up to the
  ready line itself, whatever the ready line reads on entry; so when one of these
  instructions follows WAI, the next call does not wait: it does to the machine what it
  does when the ready line is high.  The other instructions are outside this result.
  Interpreting the ready line, and not calling again while it is low, is left to the
  calling application.
\<close>

theorem wai_ready_line:
  "(pins_resbIn clem \<and> cpu_enabled clem
      \<and> cpu_state_type clem = kClemensCPUStateType_Execute
      \<and> peek clem (regs_PBR clem) (regs_PC clem) = CLEM_OPC_WAI
    \<longrightarrow> clemens_emulate_cpu ndebug clem
           = Inr ((clem_cycle (clem_mem_cycle clem (regs_PBR clem)) 2)
                    \<lparr>regs_IR := CLEM_OPC_WAI, pins_readyOut := False,
                     regs_PC := regs_PC clem + 1\<rparr>))
   \<and> map_sum id (pins_readyOut_update (\<lambda>_. r))
         (clemens_emulate_cpu ndebug (clem\<lparr>pins_readyOut := b\<rparr>))
       = map_sum id (pins_readyOut_update (\<lambda>_. r)) (clemens_emulate_cpu ndebug clem)
   \<and> ((pins_resbIn clem \<and> cpu_enabled clem
          \<and> cpu_state_type clem = kClemensCPUStateType_Execute
        \<longrightarrow> opcode_switch (peek clem (regs_PBR clem) (regs_PC clem)) \<noteq> Case_other)
      \<longrightarrow> \<not> isl (clemens_emulate_cpu ndebug clem)
          \<and> \<not> isl (clemens_emulate_cpu ndebug (clem\<lparr>pins_readyOut := b\<rparr>)))"
proof (intro conjI impI)
  assume "pins_resbIn clem \<and> cpu_enabled clem
      \<and> cpu_state_type clem = kClemensCPUStateType_Execute
      \<and> peek clem (regs_PBR clem) (regs_PC clem) = CLEM_OPC_WAI"
  then show "clemens_emulate_cpu ndebug clem
           = Inr ((clem_cycle (clem_mem_cycle clem (regs_PBR clem)) 2)
                    \<lparr>regs_IR := CLEM_OPC_WAI, pins_readyOut := False,
                     regs_PC := regs_PC clem + 1\<rparr>)"
    by (simp add: clemens_emulate_cpu_def cpu_execute_def cpu_execute_with_def
      cpu_execute_case_def clem_read_def opcode_switch_def const_defs Let_def
      clem_cycle_def clem_mem_cycle_def)
next
  let ?N = "pins_readyOut_update (\<lambda>_. r)"
  let ?c = "clem\<lparr>pins_readyOut := b\<rparr>"
  consider (low) "\<not> pins_resbIn clem"
    | (off) "pins_resbIn clem" "\<not> cpu_enabled clem"
    | (rst) "pins_resbIn clem" "cpu_enabled clem"
            "cpu_state_type clem = kClemensCPUStateType_Reset"
    | (irq) "pins_resbIn clem" "cpu_enabled clem"
            "cpu_state_type clem = kClemensCPUStateType_IRQ
             \<or> cpu_state_type clem = kClemensCPUStateType_NMI"
    | (exe) "pins_resbIn clem" "cpu_enabled clem"
            "cpu_state_type clem = kClemensCPUStateType_Execute"
    by (cases "cpu_state_type clem") auto
  then show "map_sum id ?N (clemens_emulate_cpu ndebug ?c)
               = map_sum id ?N (clemens_emulate_cpu ndebug clem)"
  proof cases
    case low
    then show ?thesis
      by (simp add: clemens_emulate_cpu_def Let_def ready_reset_entry ready_commute_prim
          ready_outward)
  next
    case off
    then show ?thesis by (simp add: clemens_emulate_cpu_def)
  next
    case rst
    then show ?thesis
      by (simp add: clemens_emulate_cpu_def Let_def split_def ready_commute_bus
          ready_commute_prim ready_commute_vector cpu_sp_dec_def cpu_sp_dec2_def
          ready_outward)
  next
    case irq
    then show ?thesis
      by (auto simp: clemens_emulate_cpu_def Let_def split_def ready_commute_irq
          ready_commute_prim ready_outward)
  next
    case exe
    then show ?thesis
      using ready_commute_execute [of r opcode_switch ndebug "\<lambda>_. b" clem]
      by (simp add: clemens_emulate_cpu_def cpu_execute_def)
  qed
next
  assume h: "pins_resbIn clem \<and> cpu_enabled clem
          \<and> cpu_state_type clem = kClemensCPUStateType_Execute
        \<longrightarrow> opcode_switch (peek clem (regs_PBR clem) (regs_PC clem)) \<noteq> Case_other"
  then show "\<not> isl (clemens_emulate_cpu ndebug clem)"
    by (rule modelled_step_returns)
next
  let ?c = "clem\<lparr>pins_readyOut := b\<rparr>"
  assume h: "pins_resbIn clem \<and> cpu_enabled clem
          \<and> cpu_state_type clem = kClemensCPUStateType_Execute
        \<longrightarrow> opcode_switch (peek clem (regs_PBR clem) (regs_PC clem)) \<noteq> Case_other"
  then have "pins_resbIn ?c \<and> cpu_enabled ?c
          \<and> cpu_state_type ?c = kClemensCPUStateType_Execute
        \<longrightarrow> opcode_switch (peek ?c (regs_PBR ?c) (regs_PC ?c)) \<noteq> Case_other"
    by simp
  then show "\<not> isl (clemens_emulate_cpu ndebug ?c)"
    by (rule modelled_step_returns)
qed

text \<open>
  Witness for C3: the machine with WAI at \<open>00:1000\<close>.  WAI is one of the instructions
  written out; the step returns a machine whatever the ready line reads, lowers the ready
  line, leaves PC at \<open>0x1001\<close> and has charged three cycles.
\<close>

theorem wai_ready_line_witness:
  "pins_resbIn wai_machine \<and> cpu_enabled wai_machine
   \<and> cpu_state_type wai_machine = kClemensCPUStateType_Execute
   \<and> peek wai_machine (regs_PBR wai_machine) (regs_PC wai_machine) = CLEM_OPC_WAI
   \<and> opcode_switch CLEM_OPC_WAI \<noteq> Case_other
   \<and> \<not> isl (clemens_emulate_cpu True wai_machine)
   \<and> \<not> isl (clemens_emulate_cpu True (wai_machine\<lparr>pins_readyOut := False\<rparr>))
   \<and> \<not> pins_readyOut (projr (clemens_emulate_cpu True wai_machine))
   \<and> regs_PC (projr (clemens_emulate_cpu True wai_machine)) = 0x1001
   \<and> cpu_cycles_spent (projr (clemens_emulate_cpu True wai_machine)) = 3"
proof -
  have h: "pins_resbIn wai_machine \<and> cpu_enabled wai_machine
      \<and> cpu_state_type wai_machine = kClemensCPUStateType_Execute
      \<and> peek wai_machine (regs_PBR wai_machine) (regs_PC wai_machine) = CLEM_OPC_WAI"
    by (simp add: mach_defs peek_def poke_def bank_memory_def bank_read_only_def const_defs)
  have o: "opcode_switch CLEM_OPC_WAI \<noteq> Case_other"
    by (simp add: opcode_switch_def const_defs)
  have regs: "regs_PC wai_machine = 0x1000" "cpu_cycles_spent wai_machine = 0"
    by (simp_all add: mach_defs poke_def bank_memory_def bank_read_only_def)
  note w = wai_ready_line [of wai_machine True True False]
  from w h
  have a: "clemens_emulate_cpu True wai_machine
          = Inr ((clem_cycle (clem_mem_cycle wai_machine (regs_PBR wai_machine)) 2)
                   \<lparr>regs_IR := CLEM_OPC_WAI, pins_readyOut := False,
                    regs_PC := regs_PC wai_machine + 1\<rparr>)"
    by blast
  from w h o
  have b: "\<not> isl (clemens_emulate_cpu True wai_machine)
          \<and> \<not> isl (clemens_emulate_cpu True (wai_machine\<lparr>pins_readyOut := False\<rparr>))"
    by simp
  show ?thesis
    using h o b by (simp add: a regs)
qed

section \<open>The reset sequence\<close>











section \<open>Block moves\<close>

lemma cpu_execute_move_effect:
  "regs_X (snd (cpu_execute_move forward xs pc c))
     = (if xs then CLEM_UTIL_set16_lo (regs_X c) (regs_X c + (if forward then 1 else - 1))
        else regs_X c + (if forward then 1 else - 1))"
  "regs_Y (snd (cpu_execute_move forward xs pc c))
     = (if xs then CLEM_UTIL_set16_lo (regs_Y c) (regs_Y c + (if forward then 1 else - 1))
        else regs_Y c + (if forward then 1 else - 1))"
  "regs_A (snd (cpu_execute_move forward xs pc c)) = regs_A c - 1"
  "regs_DBR (snd (cpu_execute_move forward xs pc c)) = peek c (regs_PBR c) pc"
  "regs_PBR (snd (cpu_execute_move forward xs pc c)) = regs_PBR c"
  "regs_P (snd (cpu_execute_move forward xs pc c)) = regs_P c"
  "regs_S (snd (cpu_execute_move forward xs pc c)) = regs_S c"
  "cpu_cycles_spent (snd (cpu_execute_move forward xs pc c)) = cpu_cycles_spent c + 6"
  "fst (cpu_execute_move forward xs pc c)
     = (if regs_A c - 1 \<noteq> 0xffff then regs_PC c else pc + 1 + 1)"
  by (simp_all add: cpu_execute_move_def clem_write_def Let_def split_def)

lemma cpu_execute_move_memory:
  "ram (snd (cpu_execute_move forward xs pc c))
     = ram (poke c (peek c (regs_PBR c) pc) (regs_Y c)
              (peek c (peek c (regs_PBR c) (pc + 1)) (regs_X c)))"
  "bank_memory (snd (cpu_execute_move forward xs pc c)) = bank_memory c"
  "peek (snd (cpu_execute_move forward xs pc c))
     = peek (poke c (peek c (regs_PBR c) pc) (regs_Y c)
               (peek c (peek c (regs_PBR c) (pc + 1)) (regs_X c)))"
    apply (simp_all add: cpu_execute_move_def clem_write_def Let_def split_def ram_poke
      cong: option.case_cong if_cong)
  done

lemma emulate_move:
  assumes "pins_resbIn clem" and "cpu_enabled clem"
    and "cpu_state_type clem = kClemensCPUStateType_Execute"
    and "peek clem (regs_PBR clem) (regs_PC clem)
           = (if forward then CLEM_OPC_MVN else CLEM_OPC_MVP)"
  shows "clemens_emulate_cpu ndebug clem
     = Inr ((snd (cpu_execute_move forward (regs_P clem AND kClemensCPUStatus_Index \<noteq> 0)
                    (regs_PC clem + 1)
                    ((clem_mem_cycle clem (regs_PBR clem))
                       \<lparr>regs_IR := peek clem (regs_PBR clem) (regs_PC clem)\<rparr>)))
             \<lparr>regs_PC := fst (cpu_execute_move forward
                    (regs_P clem AND kClemensCPUStatus_Index \<noteq> 0) (regs_PC clem + 1)
                    ((clem_mem_cycle clem (regs_PBR clem))
                       \<lparr>regs_IR := peek clem (regs_PBR clem) (regs_PC clem)\<rparr>))\<rparr>)"
  using assms
  by (cases forward)
     (simp_all add: clemens_emulate_cpu_def cpu_execute_def cpu_execute_with_def
       cpu_execute_case_def opcode_switch_def const_defs Let_def split_def)

text \<open>
  Claim C8.  One call of the step entry point on MVN (\<open>forward\<close>) or MVP fetches the
  destination and source bank bytes, reads one byte at source bank:X and writes it at
  destination bank:Y, steps X and Y up (MVN) or down (MVP) at the current index width,
  decrements A, sets DBR to the destination bank, and leaves PC on the opcode so that the
  instruction restarts, unless A has become \<open>0xFFFF\<close>, when PC moves past the two
  operand bytes.  The written byte arrives whenever the destination bank is writable
  memory.
\<close>

theorem move_block_step:
  assumes "pins_resbIn clem" and "cpu_enabled clem"
    and "cpu_state_type clem = kClemensCPUStateType_Execute"
    and "peek clem (regs_PBR clem) (regs_PC clem)
           = (if forward then CLEM_OPC_MVN else CLEM_OPC_MVP)"
  shows "\<exists>m'. clemens_emulate_cpu ndebug clem = Inr m'
     \<and> ram m' = ram (poke clem (peek clem (regs_PBR clem) (regs_PC clem + 1)) (regs_Y clem)
                        (peek clem (peek clem (regs_PBR clem) (regs_PC clem + 2)) (regs_X clem)))
     \<and> (bank_writable clem (peek clem (regs_PBR clem) (regs_PC clem + 1)) \<longrightarrow>
          peek m' (peek clem (regs_PBR clem) (regs_PC clem + 1)) (regs_Y clem)
            = peek clem (peek clem (regs_PBR clem) (regs_PC clem + 2)) (regs_X clem))
     \<and> regs_X m' = (if regs_P clem AND kClemensCPUStatus_Index \<noteq> 0
                     then CLEM_UTIL_set16_lo (regs_X clem)
                            (regs_X clem + (if forward then 1 else - 1))
                     else regs_X clem + (if forward then 1 else - 1))
     \<and> regs_Y m' = (if regs_P clem AND kClemensCPUStatus_Index \<noteq> 0
                     then CLEM_UTIL_set16_lo (regs_Y clem)
                            (regs_Y clem + (if forward then 1 else - 1))
                     else regs_Y clem + (if forward then 1 else - 1))
     \<and> regs_A m' = regs_A clem - 1
     \<and> regs_DBR m' = peek clem (regs_PBR clem) (regs_PC clem + 1)
     \<and> regs_PC m' = (if regs_A clem - 1 \<noteq> 0xffff then regs_PC clem else regs_PC clem + 3)
     \<and> regs_PBR m' = regs_PBR clem \<and> regs_P m' = regs_P clem \<and> regs_S m' = regs_S clem
     \<and> cpu_cycles_spent m' = cpu_cycles_spent clem + 7"
proof -
  have pc2: "regs_PC clem + 1 + 1 = regs_PC clem + 2"
    and pc3: "regs_PC clem + 1 + 1 + 1 = regs_PC clem + 3"
    by simp_all
  show ?thesis
    unfolding emulate_move [OF assms]
    by (simp add: cpu_execute_move_effect cpu_execute_move_memory peek_poke pc2 pc3
        bank_writable_def del: add_numeral_left)
qed

text \<open>
  Witness for C8: the last iteration of an MVN from bank 2 to bank 1.  The byte \<open>0x10\<close>
  at \<open>02:0010\<close> arrives at \<open>01:0020\<close>, X and Y step up, A wraps to \<open>0xFFFF\<close>, DBR
  becomes 1 and PC moves past the operands.
\<close>

theorem move_block_step_witness:
  "peek mvn_machine (regs_PBR mvn_machine) (regs_PC mvn_machine) = CLEM_OPC_MVN
   \<and> bank_writable mvn_machine 1
   \<and> peek mvn_machine 2 0x0010 = 0x10
   \<and> peek mvn_machine 1 0x0020 = 0x20
   \<and> peek (projr (clemens_emulate_cpu True mvn_machine)) 1 0x0020 = 0x10
   \<and> regs_X (projr (clemens_emulate_cpu True mvn_machine)) = 0x0011
   \<and> regs_Y (projr (clemens_emulate_cpu True mvn_machine)) = 0x0021
   \<and> regs_A (projr (clemens_emulate_cpu True mvn_machine)) = 0xFFFF
   \<and> regs_DBR (projr (clemens_emulate_cpu True mvn_machine)) = 1
   \<and> regs_PC (projr (clemens_emulate_cpu True mvn_machine)) = 0x1003"
proof -
  have h: "pins_resbIn mvn_machine" "cpu_enabled mvn_machine"
    "cpu_state_type mvn_machine = kClemensCPUStateType_Execute"
    by (simp_all add: mach_defs)
  have regs: "regs_PBR mvn_machine = 0" "regs_PC mvn_machine = 0x1000"
    "regs_X mvn_machine = 0x10" "regs_Y mvn_machine = 0x20" "regs_A mvn_machine = 0"
    "regs_P mvn_machine = 0"
    by (simp_all add: mach_defs)
  have mem: "peek mvn_machine 0 0x1000 = CLEM_OPC_MVN" "peek mvn_machine 0 0x1001 = 1"
    "peek mvn_machine 0 0x1002 = 2" "peek mvn_machine 2 0x0010 = 0x10"
    "peek mvn_machine 1 0x0020 = 0x20" "bank_writable mvn_machine 1"
    by (simp_all add: mach_defs peek_def poke_def bank_memory_def bank_read_only_def
        bank_writable_def const_defs)
  have op: "peek mvn_machine (regs_PBR mvn_machine) (regs_PC mvn_machine)
              = (if True then CLEM_OPC_MVN else CLEM_OPC_MVP)"
    by (simp add: regs mem)
  from move_block_step [OF h op, of True]
  show ?thesis
    by (auto simp: regs mem const_defs CLEM_UTIL_set16_lo_def)
qed

section \<open>Loading Intel HEX text: what is reported\<close>















































end
